theory Spec2Isabelle
  imports Complex_Main "HOL-Library.Word"
begin

section \<open>JavaScript values\<close>

text \<open>
  The codec checks the dynamic types of its arguments, so the values it handles are
  modelled with their runtime type: numbers (an IEEE double is \<open>NaN\<close>, an infinity or a
  finite rational), BigInts, strings (lists of 8-bit code units), \<open>Uint8Array\<close>s, arrays,
  \<open>Map\<close>s (their entries in insertion order; the keys the codec stores are numbers and
  strings, which a \<open>Map\<close> compares by value), plain objects (their properties in
  insertion order) and references to objects of the store.
\<close>

type_synonym byte = "8 word"

datatype jsnum = NaN | PosInfinity | NegInfinity | Fin rat

datatype jsval =
    JUndefined
  | JNull
  | JBool bool
  | JNum jsnum
  | JBigInt int
  | JStr string
  | JBytes "byte list"
  | JArr "jsval list"
  | JMap "(jsval \<times> jsval) list"
  | JObj "(string \<times> jsval) list"
  | JRef nat

text \<open>
  A thrown value: \<^verbatim>\<open>new Error(message)\<close> or \<^verbatim>\<open>new TypeError(message)\<close>, the latter with
  its \<open>cause\<close> property when the code sets one.
\<close>

datatype js_error = Error string | TypeError string "js_error option"

definition andThen :: "'e + 'a \<Rightarrow> ('a \<Rightarrow> 'e + 'b) \<Rightarrow> 'e + 'b" where
  "andThen r f = (case r of Inl e \<Rightarrow> Inl e | Inr x \<Rightarrow> f x)"

subsection \<open>Numbers and strings\<close>

definition digitChar :: "nat \<Rightarrow> char" where
  "digitChar d = ''0123456789'' ! d"

text \<open>The decimal numeral of a natural number, without leading zeros.\<close>

function decimal :: "nat \<Rightarrow> string" where
  "decimal n = (if n < 10 then [digitChar n] else decimal (n div 10) @ [digitChar (n mod 10)])"
  by pat_completeness auto
termination
  by (relation "measure id") auto

declare decimal.simps [simp del]

definition intToString :: "int \<Rightarrow> string" where
  "intToString i = (if i < 0 then CHR ''-'' # decimal (nat (- i)) else decimal (nat i))"

definition isDigit :: "char \<Rightarrow> bool" where
  "isDigit c = (48 \<le> (of_char c :: nat) \<and> (of_char c :: nat) \<le> 57)"

definition digitValue :: "char \<Rightarrow> nat" where
  "digitValue c = of_char c - 48"

definition digitsValue :: "string \<Rightarrow> nat" where
  "digitsValue z = foldl (\<lambda>acc c. 10 * acc + digitValue c) 0 z"

text \<open>The white space that \<open>parseInt\<close> skips, among the 8-bit code units.\<close>

definition isWhiteSpace :: "char \<Rightarrow> bool" where
  "isWhiteSpace c = ((of_char c :: nat) \<in> {9, 10, 11, 12, 13, 32, 160})"

function bitLength :: "nat \<Rightarrow> nat" where
  "bitLength n = (if n = 0 then 0 else Suc (bitLength (n div 2)))"
  by pat_completeness auto
termination
  by (relation "measure id") auto

declare bitLength.simps [simp del]

text \<open>
  The Number value of a natural number: the nearest double, ties to the even
  significand; \<open>None\<close> is \<open>Infinity\<close>. Every natural number below \<open>2 ^ 53\<close> is a double.
\<close>

definition toF64 :: "nat \<Rightarrow> nat option" where
  "toF64 n =
     (if n < 2 ^ 53 then Some n
      else
        let e = bitLength n - 53;
            q = n div 2 ^ e;
            r = n mod 2 ^ e;
            h = 2 ^ (e - 1);
            q' = (if h < r \<or> (r = h \<and> odd q) then q + 1 else q);
            v = q' * 2 ^ e
        in if 2 ^ 1024 \<le> v then None else Some v)"

text \<open>
  \<^verbatim>\<open>parseInt(inputString, 10)\<close>: skip white space, read a sign, read the longest
  prefix of decimal digits; no digit gives \<open>NaN\<close>, otherwise the Number value of the
  integer read.
\<close>

definition parseInt :: "string \<Rightarrow> jsnum" where
  "parseInt inputString =
     (let s = dropWhile isWhiteSpace inputString;
          negative = (take 1 s = ''-'');
          s' = (if take 1 s = ''-'' \<or> take 1 s = ''+'' then drop 1 s else s);
          z = takeWhile isDigit s'
      in if z = [] then NaN
         else case toF64 (digitsValue z) of
                None \<Rightarrow> (if negative then NegInfinity else PosInfinity)
              | Some v \<Rightarrow> Fin (if negative then - of_nat v else of_nat v))"

definition isIntegral :: "rat \<Rightarrow> bool" where
  "isIntegral q = (q = of_int \<lfloor>q\<rfloor>)"

text \<open>
  \<open>Number::toString\<close>. An integer of magnitude at most \<open>2 ^ 53\<close> prints as its decimal
  numeral. The digits of any other finite number (the shortest that read back as the
  same double) are not modelled: they are the parameter \<open>other\<close>.
\<close>

definition Number_toString :: "(rat \<Rightarrow> string) \<Rightarrow> jsnum \<Rightarrow> string" where
  "Number_toString other x =
     (case x of
        NaN \<Rightarrow> ''NaN''
      | PosInfinity \<Rightarrow> ''Infinity''
      | NegInfinity \<Rightarrow> ''-Infinity''
      | Fin q \<Rightarrow> if isIntegral q \<and> \<bar>q\<bar> \<le> 2 ^ 53 then intToString \<lfloor>q\<rfloor> else other q)"

fun joinComma :: "string list \<Rightarrow> string" where
  "joinComma [] = []"
| "joinComma [x] = x"
| "joinComma (x # y # ys) = x @ '','' @ joinComma (y # ys)"

text \<open>
  The string a template literal \<^verbatim>\<open>`${v}`\<close> inserts for \<open>v\<close>. An array and a
  \<open>Uint8Array\<close> print their elements joined by commas, \<open>null\<close> and \<open>undefined\<close> elements
  as the empty string.
\<close>

fun ToString :: "(rat \<Rightarrow> string) \<Rightarrow> jsval \<Rightarrow> string" where
  "ToString other JUndefined = ''undefined''"
| "ToString other JNull = ''null''"
| "ToString other (JBool b) = (if b then ''true'' else ''false'')"
| "ToString other (JNum x) = Number_toString other x"
| "ToString other (JBigInt i) = intToString i"
| "ToString other (JStr s) = s"
| "ToString other (JBytes bs) = joinComma (map (\<lambda>b. decimal (unat b)) bs)"
| "ToString other (JArr xs) =
     joinComma (map (\<lambda>x. if x = JUndefined \<or> x = JNull then [] else ToString other x) xs)"
| "ToString other (JMap kvs) = ''[object Map]''"
| "ToString other (JObj fs) = ''[object Object]''"
| "ToString other (JRef a) = ''[object Object]''"

subsection \<open>Property access and the methods the codec calls\<close>

definition msgNullish :: string where
  "msgNullish = ''Cannot read properties of undefined or null''"

definition msgNotAFunction :: string where
  "msgNotAFunction = ''is not a function''"

definition msgNotIterable :: string where
  "msgNotIterable = ''is not iterable''"

text \<open>
  \<^verbatim>\<open>v.name\<close> for a property that only a plain object of the inputs can own
  (\<open>proofValue\<close>, \<open>id\<close>, \<open>proofPurpose\<close>): reading it from \<open>undefined\<close> or \<open>null\<close> throws,
  any other value without it gives \<open>undefined\<close>. A reference is not followed: the callers
  pass an object of the store by its properties. The messages of the errors that the
  engine throws are placeholders.
\<close>

definition getProp :: "jsval \<Rightarrow> string \<Rightarrow> js_error + jsval" where
  "getProp v name =
     (case v of
        JUndefined \<Rightarrow> Inl (TypeError msgNullish None)
      | JNull \<Rightarrow> Inl (TypeError msgNullish None)
      | JObj fs \<Rightarrow> (case map_of fs name of None \<Rightarrow> Inr JUndefined | Some x \<Rightarrow> Inr x)
      | _ \<Rightarrow> Inr JUndefined)"

text \<open>\<^verbatim>\<open>v?.name\<close>\<close>

definition optionalProp :: "jsval \<Rightarrow> string \<Rightarrow> jsval" where
  "optionalProp v name =
     (case v of
        JObj fs \<Rightarrow> (case map_of fs name of None \<Rightarrow> JUndefined | Some x \<Rightarrow> x)
      | _ \<Rightarrow> JUndefined)"

text \<open>
  \<^verbatim>\<open>v.slice(n)\<close>: strings, arrays and typed arrays have the method; on the other
  values the call throws.
\<close>

definition js_slice :: "jsval \<Rightarrow> nat \<Rightarrow> js_error + jsval" where
  "js_slice v n =
     (case v of
        JStr s \<Rightarrow> Inr (JStr (drop n s))
      | JArr xs \<Rightarrow> Inr (JArr (drop n xs))
      | JBytes bs \<Rightarrow> Inr (JBytes (drop n bs))
      | JUndefined \<Rightarrow> Inl (TypeError msgNullish None)
      | JNull \<Rightarrow> Inl (TypeError msgNullish None)
      | _ \<Rightarrow> Inl (TypeError msgNotAFunction None))"

definition indexed :: "jsval list \<Rightarrow> (jsval \<times> jsval) list" where
  "indexed xs = zip (map (\<lambda>i. JNum (Fin (of_nat i))) [0..<length xs]) xs"

text \<open>
  \<^verbatim>\<open>v.entries()\<close>, iterated: a \<open>Map\<close> gives its entries, an array and a typed array
  the pairs of index and element.
\<close>

definition js_entries :: "jsval \<Rightarrow> js_error + (jsval \<times> jsval) list" where
  "js_entries v =
     (case v of
        JMap kvs \<Rightarrow> Inr kvs
      | JArr xs \<Rightarrow> Inr (indexed xs)
      | JBytes bs \<Rightarrow> Inr (indexed (map (\<lambda>b. JNum (Fin (of_nat (unat b)))) bs))
      | JUndefined \<Rightarrow> Inl (TypeError msgNullish None)
      | JNull \<Rightarrow> Inl (TypeError msgNullish None)
      | _ \<Rightarrow> Inl (TypeError msgNotAFunction None))"

text \<open>
  The elements an array destructuring pattern \<^verbatim>\<open>[a, b, ...] = v\<close> reads from \<open>v\<close>:
  arrays, typed arrays, strings and \<open>Map\<close>s are iterable.
\<close>

definition js_iterate :: "jsval \<Rightarrow> js_error + jsval list" where
  "js_iterate v =
     (case v of
        JArr xs \<Rightarrow> Inr xs
      | JBytes bs \<Rightarrow> Inr (map (\<lambda>b. JNum (Fin (of_nat (unat b)))) bs)
      | JStr s \<Rightarrow> Inr (map (\<lambda>c. JStr [c]) s)
      | JMap kvs \<Rightarrow> Inr (map (\<lambda>(k, x). JArr [k, x]) kvs)
      | _ \<Rightarrow> Inl (TypeError msgNotIterable None))"

text \<open>Element \<open>i\<close> of a destructuring: \<open>undefined\<close> when the iterable is shorter.\<close>

definition element :: "jsval list \<Rightarrow> nat \<Rightarrow> jsval" where
  "element xs i = (if i < length xs then xs ! i else JUndefined)"

text \<open>\<^verbatim>\<open>map.set(k, v)\<close> on the entries of a \<open>Map\<close> whose keys compare by value.\<close>

fun mapSet :: "(jsval \<times> jsval) list \<Rightarrow> jsval \<Rightarrow> jsval \<Rightarrow> (jsval \<times> jsval) list" where
  "mapSet [] k v = [(k, v)]"
| "mapSet ((k', v') # rest) k v =
     (if k' = k then (k, v) # rest else (k', v') # mapSet rest k v)"

definition isUint8Array :: "jsval \<Rightarrow> bool" where
  "isUint8Array v = (case v of JBytes bs \<Rightarrow> True | _ \<Rightarrow> False)"

definition isString :: "jsval \<Rightarrow> bool" where
  "isString v = (case v of JStr s \<Rightarrow> True | _ \<Rightarrow> False)"

text \<open>\<^verbatim>\<open>v instanceof Uint8Array && v.length === n\<close>\<close>

definition isUint8ArrayOfLength :: "jsval \<Rightarrow> nat \<Rightarrow> bool" where
  "isUint8ArrayOfLength v n = (case v of JBytes bs \<Rightarrow> length bs = n | _ \<Rightarrow> False)"

text \<open>\<^verbatim>\<open>Array.isArray(v) && v.every(p)\<close>\<close>

definition isArrayOf :: "(jsval \<Rightarrow> bool) \<Rightarrow> jsval \<Rightarrow> bool" where
  "isArrayOf p v = (case v of JArr xs \<Rightarrow> list_all p xs | _ \<Rightarrow> False)"

definition Number_isInteger :: "jsval \<Rightarrow> bool" where
  "Number_isInteger v = (case v of JNum (Fin q) \<Rightarrow> isIntegral q | _ \<Rightarrow> False)"

section \<open>Proof-value codec (\<open>lib/proofValue.js\<close>)\<close>

text \<open>
  The libraries the codec calls are parameters: \<open>base64url.decode\<close> and
  \<open>base64url.encode\<close> of \<open>base64url-universal\<close>, \<open>cborg.decode\<close> (with the options
  \<^verbatim>\<open>{useMaps: true, tags: TAGS}\<close>) and \<open>cborg.encode\<close> (with \<^verbatim>\<open>{useMaps: true}\<close>) of
  \<open>cborg\<close>, each returning its value or the error it throws, and the digits the engine
  prints for a number that is not an integer of magnitude at most \<open>2 ^ 53\<close>.
\<close>

record libraries =
  base64url_decode :: "jsval \<Rightarrow> js_error + byte list"
  base64url_encode :: "jsval \<Rightarrow> js_error + string"
  cborg_decode :: "byte list \<Rightarrow> js_error + jsval"
  cborg_encode :: "jsval \<Rightarrow> js_error + byte list"
  numberDigits :: "rat \<Rightarrow> string"

definition CBOR_PREFIX_BASE :: "byte list" where
  "CBOR_PREFIX_BASE = [0xd9, 0x5d, 0x00]"

definition CBOR_PREFIX_DERIVED :: "byte list" where
  "CBOR_PREFIX_DERIVED = [0xd9, 0x5d, 0x01]"

text \<open>
  The parameters of a base proof, in the order \<open>baseSignature\<close>, \<open>publicKey\<close>, \<open>hmacKey\<close>,
  \<open>signatures\<close>, \<open>mandatoryPointers\<close>, and of a derived proof, in the order
  \<open>baseSignature\<close>, \<open>publicKey\<close>, \<open>signatures\<close>, \<open>labelMap\<close>, \<open>mandatoryIndexes\<close>.
\<close>

datatype base_params = BaseProofParams jsval jsval jsval jsval jsval

datatype derived_params = DerivedProofParams jsval jsval jsval jsval jsval

definition msgInvalidProofValue :: string where
  \<open>msgInvalidProofValue = ''The proof does not include a valid "proofValue" property.''\<close>

definition msgMustBeBase :: string where
  \<open>msgMustBeBase = ''"proof.proofValue" must be a base proof.''\<close>

definition msgMustBeDerived :: string where
  \<open>msgMustBeDerived = ''"proof.proofValue" must be a derived proof.''\<close>

definition msgMustBeString :: string where
  \<open>msgMustBeString = ''The proof does not include a valid "proofValue" property; '' @
     ''"proofValue" must be a string.''\<close>

definition msgOnlyBase64url :: string where
  \<open>msgOnlyBase64url = ''The proof does not include a valid "proofValue" property; '' @
     ''only base64url multibase encoding is supported.''\<close>

definition msgBaseSignature :: string where
  \<open>msgBaseSignature = ''"baseSignature" must be a Uint8Array of length 64.''\<close>

definition msgPublicKey :: string where
  \<open>msgPublicKey = ''"publicKey" must be a Uint8Array of length 35.''\<close>

definition msgHmacKey :: string where
  \<open>msgHmacKey = ''"hmacKey" must be a Uint8Array of length 32.''\<close>

definition msgSignatures64 :: string where
  \<open>msgSignatures64 = ''"signatures" must be an array of Uint8Arrays, each of length 64.''\<close>

definition msgMandatoryPointers :: string where
  \<open>msgMandatoryPointers = ''"mandatoryPointers" must be an array of strings.''\<close>

definition msgProofHash :: string where
  \<open>msgProofHash = ''"proofHash" must be a Uint8Array of length 32.''\<close>

definition msgMandatoryHash :: string where
  \<open>msgMandatoryHash = ''"mandatoryHash" must be a Uint8Array of length 32.''\<close>

definition msgSignatures :: string where
  \<open>msgSignatures = ''"signatures" must be an array of Uint8Arrays.''\<close>

definition msgLabelMap :: string where
  \<open>msgLabelMap = ''"labelMap" must be a Map of strings to strings.''\<close>

definition msgMandatoryIndexes :: string where
  \<open>msgMandatoryIndexes = ''"mandatoryIndexes" must be an array of integers.''\<close>

text \<open>
  \<open>_assertProofValue\<close>: \<^verbatim>\<open>typeof proof?.proofValue !== 'string'\<close>, then
  \<^verbatim>\<open>proof.proofValue[0] !== 'u'\<close>.
\<close>

definition assertProofValue :: "jsval \<Rightarrow> js_error + unit" where
  "assertProofValue proof =
     (case optionalProp proof ''proofValue'' of
        JStr s \<Rightarrow> if take 1 s \<noteq> ''u'' then Inl (TypeError msgOnlyBase64url None) else Inr ()
      | _ \<Rightarrow> Inl (TypeError msgMustBeString None))"

text \<open>
  \<open>_startsWithBytes\<close>: a buffer shorter than the prefix reads \<open>undefined\<close> at the missing
  index, which differs from every byte of the prefix.
\<close>

fun startsWithBytes :: "byte list \<Rightarrow> byte list \<Rightarrow> bool" where
  "startsWithBytes buffer [] = True"
| "startsWithBytes [] (p # ps) = False"
| "startsWithBytes (b # bs) (p # ps) = (if b \<noteq> p then False else startsWithBytes bs ps)"

definition concatBuffers :: "byte list list \<Rightarrow> byte list" where
  "concatBuffers buffers = concat buffers"

text \<open>\<^verbatim>\<open>base64url.decode(proof.proofValue.slice(1))\<close>\<close>

definition decodeProofValue :: "libraries \<Rightarrow> jsval \<Rightarrow> js_error + byte list" where
  "decodeProofValue lib proof =
     andThen (getProp proof ''proofValue'') (\<lambda>proofValue.
     andThen (js_slice proofValue 1) (\<lambda>rest.
     base64url_decode lib rest))"

definition isBaseProofValue :: "libraries \<Rightarrow> jsval \<Rightarrow> js_error + bool" where
  "isBaseProofValue lib proof =
     andThen (assertProofValue proof) (\<lambda>_.
     andThen (decodeProofValue lib proof) (\<lambda>proofValue.
     Inr (startsWithBytes proofValue CBOR_PREFIX_BASE)))"

definition isDerivedProofValue :: "libraries \<Rightarrow> jsval \<Rightarrow> js_error + bool" where
  "isDerivedProofValue lib proof =
     andThen (assertProofValue proof) (\<lambda>_.
     andThen (decodeProofValue lib proof) (\<lambda>proofValue.
     Inr (startsWithBytes proofValue CBOR_PREFIX_DERIVED)))"

fun validateBaseProofParams :: "base_params \<Rightarrow> js_error + unit" where
  "validateBaseProofParams
     (BaseProofParams baseSignature publicKey hmacKey signatures mandatoryPointers) =
     (if \<not> isUint8ArrayOfLength baseSignature 64 then Inl (TypeError msgBaseSignature None)
      else if \<not> isUint8ArrayOfLength publicKey 35 then Inl (TypeError msgPublicKey None)
      else if \<not> isUint8ArrayOfLength hmacKey 32 then Inl (TypeError msgHmacKey None)
      else if \<not> isArrayOf (\<lambda>s. isUint8ArrayOfLength s 64) signatures
        then Inl (TypeError msgSignatures64 None)
      else if \<not> isArrayOf isString mandatoryPointers
        then Inl (TypeError msgMandatoryPointers None)
      else Inr ())"

text \<open>
  \<open>_validateBaseVerifyDataParams\<close>, on byte arrays: the verify data holds
  \<open>Uint8Array\<close>s, so that only the lengths are left to check.
\<close>

definition validateBaseVerifyDataParams ::
  "byte list \<Rightarrow> byte list \<Rightarrow> byte list \<Rightarrow> js_error + unit" where
  "validateBaseVerifyDataParams proofHash publicKey mandatoryHash =
     (if \<not> length proofHash = 32 then Inl (TypeError msgProofHash None)
      else if \<not> length publicKey = 35 then Inl (TypeError msgPublicKey None)
      else if \<not> length mandatoryHash = 32 then Inl (TypeError msgMandatoryHash None)
      else Inr ())"

fun validateDerivedProofParams :: "derived_params \<Rightarrow> js_error + unit" where
  "validateDerivedProofParams
     (DerivedProofParams baseSignature publicKey signatures labelMap mandatoryIndexes) =
     (if \<not> isUint8ArrayOfLength baseSignature 64 then Inl (TypeError msgBaseSignature None)
      else if \<not> isUint8ArrayOfLength publicKey 35 then Inl (TypeError msgPublicKey None)
      else if \<not> isArrayOf isUint8Array signatures then Inl (TypeError msgSignatures None)
      else if \<not> (case labelMap of
                   JMap kvs \<Rightarrow> list_all (\<lambda>(k, v). isString k \<and> isString v) kvs
                 | _ \<Rightarrow> False)
        then Inl (TypeError msgLabelMap None)
      else if \<not> isArrayOf Number_isInteger mandatoryIndexes
        then Inl (TypeError msgMandatoryIndexes None)
      else Inr ())"

text \<open>
  \<open>_compressLabelMap\<close>: for each entry,
  \<^verbatim>\<open>map.set(parseInt(k.slice(4), 10), base64url.decode(v.slice(1)))\<close>.
  The last argument of the loop holds the entries of the new \<open>Map\<close>.
\<close>

fun compressLoop ::
  "libraries \<Rightarrow> (jsval \<times> jsval) list \<Rightarrow> (jsval \<times> jsval) list
     \<Rightarrow> js_error + (jsval \<times> jsval) list" where
  "compressLoop lib [] entries = Inr entries"
| "compressLoop lib ((k, v) # rest) entries =
     andThen (js_slice k 4) (\<lambda>digits.
     andThen (js_slice v 1) (\<lambda>encoded.
     andThen (base64url_decode lib encoded) (\<lambda>bytes.
     compressLoop lib rest
       (mapSet entries (JNum (parseInt (ToString (numberDigits lib) digits))) (JBytes bytes)))))"

definition compressLabelMap :: "libraries \<Rightarrow> jsval \<Rightarrow> js_error + jsval" where
  "compressLabelMap lib labelMap =
     andThen (js_entries labelMap) (\<lambda>entries.
     andThen (compressLoop lib entries []) (\<lambda>compressed. Inr (JMap compressed)))"

text \<open>
  \<open>_decompressLabelMap\<close>: for each entry,
  \<^verbatim>\<open>map.set(`c14n${k}`, `u${base64url.encode(v)}`)\<close>.
\<close>

fun decompressLoop ::
  "libraries \<Rightarrow> (jsval \<times> jsval) list \<Rightarrow> (jsval \<times> jsval) list
     \<Rightarrow> js_error + (jsval \<times> jsval) list" where
  "decompressLoop lib [] entries = Inr entries"
| "decompressLoop lib ((k, v) # rest) entries =
     andThen (base64url_encode lib v) (\<lambda>encoded.
     decompressLoop lib rest
       (mapSet entries (JStr (''c14n'' @ ToString (numberDigits lib) k))
          (JStr (CHR ''u'' # encoded))))"

definition decompressLabelMap :: "libraries \<Rightarrow> jsval \<Rightarrow> js_error + jsval" where
  "decompressLabelMap lib compressedLabelMap =
     andThen (js_entries compressedLabelMap) (\<lambda>entries.
     andThen (decompressLoop lib entries []) (\<lambda>labelMap. Inr (JMap labelMap)))"

text \<open>The body of \<open>parseBaseProofValue\<close>'s \<open>try\<close> block.\<close>

definition parseBaseProofValueBody :: "libraries \<Rightarrow> jsval \<Rightarrow> js_error + base_params" where
  "parseBaseProofValueBody lib proof =
     andThen (decodeProofValue lib proof) (\<lambda>proofValue.
     andThen (isBaseProofValue lib proof) (\<lambda>isBase.
     if \<not> isBase then Inl (TypeError msgMustBeBase None)
     else
       andThen (cborg_decode lib (drop (length CBOR_PREFIX_BASE) proofValue)) (\<lambda>decoded.
       andThen (js_iterate decoded) (\<lambda>items.
       let params = BaseProofParams (element items 0) (element items 1) (element items 2)
                      (element items 3) (element items 4)
       in andThen (validateBaseProofParams params) (\<lambda>_. Inr params)))))"

text \<open>The \<open>catch\<close> block of both parsers: a new \<open>TypeError\<close> whose \<open>cause\<close> is the caught error.\<close>

definition catchInvalidProofValue :: "js_error + 'a \<Rightarrow> js_error + 'a" where
  "catchInvalidProofValue r =
     (case r of Inl e \<Rightarrow> Inl (TypeError msgInvalidProofValue (Some e)) | Inr x \<Rightarrow> Inr x)"

definition parseBaseProofValue :: "libraries \<Rightarrow> jsval \<Rightarrow> js_error + base_params" where
  "parseBaseProofValue lib proof = catchInvalidProofValue (parseBaseProofValueBody lib proof)"

definition parseDisclosureProofValueBody ::
  "libraries \<Rightarrow> jsval \<Rightarrow> js_error + derived_params" where
  "parseDisclosureProofValueBody lib proof =
     andThen (decodeProofValue lib proof) (\<lambda>proofValue.
     andThen (isDerivedProofValue lib proof) (\<lambda>isDerived.
     if \<not> isDerived then Inl (TypeError msgMustBeDerived None)
     else
       andThen (cborg_decode lib (drop (length CBOR_PREFIX_DERIVED) proofValue)) (\<lambda>decoded.
       andThen (js_iterate decoded) (\<lambda>items.
       andThen (decompressLabelMap lib (element items 3)) (\<lambda>labelMap.
       let params = DerivedProofParams (element items 0) (element items 1) (element items 2)
                      labelMap (element items 4)
       in andThen (validateDerivedProofParams params) (\<lambda>_. Inr params))))))"

definition parseDisclosureProofValue :: "libraries \<Rightarrow> jsval \<Rightarrow> js_error + derived_params" where
  "parseDisclosureProofValue lib proof =
     catchInvalidProofValue (parseDisclosureProofValueBody lib proof)"

fun serializeBaseProofValue :: "libraries \<Rightarrow> base_params \<Rightarrow> js_error + string" where
  "serializeBaseProofValue lib
     (BaseProofParams baseSignature publicKey hmacKey signatures mandatoryPointers) =
     andThen (validateBaseProofParams
       (BaseProofParams baseSignature publicKey hmacKey signatures mandatoryPointers)) (\<lambda>_.
     andThen (cborg_encode lib
       (JArr [baseSignature, publicKey, hmacKey, signatures, mandatoryPointers])) (\<lambda>encoded.
     andThen (base64url_encode lib
       (JBytes (concatBuffers [CBOR_PREFIX_BASE, encoded]))) (\<lambda>encodedText.
     Inr (CHR ''u'' # encodedText))))"

definition serializeBaseVerifyData ::
  "byte list \<Rightarrow> byte list \<Rightarrow> byte list \<Rightarrow> js_error + byte list" where
  "serializeBaseVerifyData proofHash publicKey mandatoryHash =
     andThen (validateBaseVerifyDataParams proofHash publicKey mandatoryHash) (\<lambda>_.
     Inr (concatBuffers [proofHash, publicKey, mandatoryHash]))"

fun serializeDisclosureProofValue :: "libraries \<Rightarrow> derived_params \<Rightarrow> js_error + string" where
  "serializeDisclosureProofValue lib
     (DerivedProofParams baseSignature publicKey signatures labelMap mandatoryIndexes) =
     andThen (validateDerivedProofParams
       (DerivedProofParams baseSignature publicKey signatures labelMap mandatoryIndexes)) (\<lambda>_.
     andThen (compressLabelMap lib labelMap) (\<lambda>compressed.
     andThen (cborg_encode lib
       (JArr [baseSignature, publicKey, signatures, compressed, mandatoryIndexes])) (\<lambda>encoded.
     andThen (base64url_encode lib
       (JBytes (concatBuffers [CBOR_PREFIX_DERIVED, encoded]))) (\<lambda>encodedText.
     Inr (CHR ''u'' # encodedText)))))"

subsection \<open>Label maps in canonical form\<close>

text \<open>
  The label map with one entry per triple of a number \<open>N\<close>, a byte string and its
  base64url text: the key is \<open>c14n\<close> followed by the decimal numeral of \<open>N\<close>, the value is
  the tag \<open>u\<close> followed by the text. Its compressed form maps the number \<open>N\<close> to the bytes.
\<close>

definition labelEntries :: "(nat \<times> byte list \<times> string) list \<Rightarrow> (jsval \<times> jsval) list" where
  "labelEntries es =
     map (\<lambda>(n, bytes, encoded). (JStr (''c14n'' @ decimal n), JStr (CHR ''u'' # encoded))) es"

definition compressedEntries ::
  "(nat \<times> byte list \<times> string) list \<Rightarrow> (jsval \<times> jsval) list" where
  "compressedEntries es = map (\<lambda>(n, bytes, encoded). (JNum (Fin (of_nat n)), JBytes bytes)) es"

section \<open>Verifier (\<open>lib/verify.js\<close>)\<close>

text \<open>
  The collaborators of \<open>_multiverify\<close> are parameters: \<open>base58.encode\<close>,
  \<open>SM2Multikey.from\<close> on the multibase public key (it returns the key or the error it
  throws), the \<open>verify\<close> function of that key's verifier, on the data and the signature,
  and \<open>stringToUtf8Bytes\<close>.
\<close>

record 'key crypto =
  base58_encode :: "byte list \<Rightarrow> string"
  SM2Multikey_from :: "string \<Rightarrow> js_error + 'key"
  keyVerify :: "'key \<Rightarrow> byte list \<Rightarrow> byte list \<Rightarrow> bool"
  stringToUtf8Bytes :: "string \<Rightarrow> byte list"

text \<open>
  The verify data, in the order \<open>baseSignature\<close>, \<open>proofHash\<close>, \<open>publicKey\<close>,
  \<open>signatures\<close>, \<open>nonMandatory\<close>, \<open>mandatoryHash\<close>.
\<close>

datatype verify_data =
  VerifyData "byte list" "byte list" "byte list" "byte list list" "string list" "byte list"

definition msgSignatureCount :: "nat \<Rightarrow> nat \<Rightarrow> string" where
  "msgSignatureCount signatureCount messageCount =
     ''Signature count ('' @ decimal signatureCount @ '') does not match '' @
     ''non-mandatory message count ('' @ decimal messageCount @ '').''"

text \<open>
  The arguments of the calls \<^verbatim>\<open>verify({data: stringToUtf8Bytes(nonMandatory[index]),
  signature})\<close> that \<open>signatures.map\<close> makes, in order: the data and the signature.
\<close>

definition statementCalls ::
  "'key crypto \<Rightarrow> byte list list \<Rightarrow> string list \<Rightarrow> (byte list \<times> byte list) list" where
  "statementCalls c signatures nonMandatory =
     map (\<lambda>(signature, index). (stringToUtf8Bytes c (nonMandatory ! index), signature))
       (zip signatures [0..<length signatures])"

text \<open>
  \<open>_multiverify\<close>. The result is paired with the calls made to the statement key's
  \<open>verify\<close>. The second parameter is \<open>verifier.verify\<close> of the long-term key, on the
  data and the signature.
\<close>

fun multiverify ::
  "'key crypto \<Rightarrow> (byte list \<Rightarrow> byte list \<Rightarrow> bool) \<Rightarrow> verify_data
     \<Rightarrow> (byte list \<times> byte list) list \<times> (js_error + bool)" where
  "multiverify c verifier
     (VerifyData baseSignature proofHash publicKey signatures nonMandatory mandatoryHash) =
     (case SM2Multikey_from c (CHR ''z'' # base58_encode c publicKey) of
        Inl e \<Rightarrow> ([], Inl e)
      | Inr localKeyPair \<Rightarrow>
          if length signatures \<noteq> length nonMandatory
          then ([], Inl (Error (msgSignatureCount (length signatures) (length nonMandatory))))
          else
            let calls = statementCalls c signatures nonMandatory;
                results = map (\<lambda>(data, signature). keyVerify c localKeyPair data signature) calls
            in if list_ex (\<lambda>r. \<not> r) results then (calls, Inr False)
               else (calls,
                 andThen (serializeBaseVerifyData proofHash publicKey mandatoryHash) (\<lambda>toVerify.
                 Inr (verifier toVerify baseSignature))))"


section \<open>Discloser: index bookkeeping of \<open>_createDisclosureData\<close>\<close>

text \<open>
  A group's \<open>matching\<close> is a JavaScript \<open>Map\<close> from the absolute index of a statement
  to the statement. It is modelled as the list of its entries in iteration (insertion)
  order. \<open>Map.prototype.has\<close> and \<open>Map.prototype.keys\<close> are the two operations the
  Discloser's loops use.
\<close>

type_synonym 'a jsmap = "(nat \<times> 'a) list"

definition has :: "'a jsmap \<Rightarrow> nat \<Rightarrow> bool" where
  "has m k = (k \<in> fst ` set m)"

definition keys :: "'a jsmap \<Rightarrow> nat list" where
  "keys m = map fst m"

lemma has_le_sum: "has m k \<Longrightarrow> k \<le> sum_list (map fst m)"
  using member_le_sum_list [of k "map fst m"] by (simp add: has_def)

text \<open>
  The inner loop \<^verbatim>\<open>while(mandatoryGroup.matching.has(index)) { index++; }\<close>:
  it returns the cursor's value when the loop exits. The map is finite, so the loop ends.
\<close>

function skipMandatory :: "'a jsmap \<Rightarrow> nat \<Rightarrow> nat" where
  "skipMandatory mandatory index =
     (if has mandatory index then skipMandatory mandatory (Suc index) else index)"
  by pat_completeness auto
termination
  by (relation "measure (\<lambda>(m, i). Suc (sum_list (map fst m)) - i)")
     (auto dest: has_le_sum)

declare skipMandatory.simps [simp del]

text \<open>
  \<^verbatim>\<open>let index = 0;
  const filteredSignatures = signatures.filter(() => {
    while(mandatoryGroup.matching.has(index)) { index++; }
    return selectiveGroup.matching.has(index++);
  });\<close>
  The predicate ignores the signature and advances the shared cursor \<open>index\<close>, which is
  passed explicitly here.
\<close>

fun filterFrom :: "'a jsmap \<Rightarrow> 'a jsmap \<Rightarrow> nat \<Rightarrow> 's list \<Rightarrow> 's list" where
  "filterFrom mandatory selective index [] = []"
| "filterFrom mandatory selective index (s # ss) =
     (let i = skipMandatory mandatory index in
      if has selective i then s # filterFrom mandatory selective (Suc i) ss
      else filterFrom mandatory selective (Suc i) ss)"

definition filteredSignatures :: "'a jsmap \<Rightarrow> 'a jsmap \<Rightarrow> 's list \<Rightarrow> 's list" where
  "filteredSignatures mandatory selective signatures =
     filterFrom mandatory selective 0 signatures"

text \<open>
  \<^verbatim>\<open>let relativeIndex = 0;
  const mandatoryIndexes = [];
  for(const absoluteIndex of combinedGroup.matching.keys()) {
    if(mandatoryGroup.matching.has(absoluteIndex)) {
      mandatoryIndexes.push(relativeIndex);
    }
    relativeIndex++;
  }\<close>
\<close>

fun mandatoryIndexesLoop :: "'a jsmap \<Rightarrow> nat list \<Rightarrow> nat \<Rightarrow> nat list \<Rightarrow> nat list" where
  "mandatoryIndexesLoop mandatory [] relativeIndex acc = acc"
| "mandatoryIndexesLoop mandatory (absoluteIndex # rest) relativeIndex acc =
     mandatoryIndexesLoop mandatory rest (Suc relativeIndex)
       (if has mandatory absoluteIndex then acc @ [relativeIndex] else acc)"

definition mandatoryIndexes :: "'a jsmap \<Rightarrow> 'a jsmap \<Rightarrow> nat list" where
  "mandatoryIndexes mandatory combined =
     mandatoryIndexesLoop mandatory (keys combined) 0 []"


subsection \<open>\<open>_createDisclosureData\<close>\<close>

text \<open>
  An object of the store is the list of its properties in insertion order; the store is
  the list of its objects, and an address is an index into it.
\<close>

type_synonym object = "(string \<times> jsval) list"

type_synonym store = "object list"

definition objectAt :: "store \<Rightarrow> nat \<Rightarrow> object" where
  "objectAt st a = (if a < length st then st ! a else [])"

text \<open>\<^verbatim>\<open>o[name] = v\<close> and \<^verbatim>\<open>delete o[name]\<close> on the properties of an object.\<close>

fun setProp :: "object \<Rightarrow> string \<Rightarrow> jsval \<Rightarrow> object" where
  "setProp [] name v = [(name, v)]"
| "setProp ((name', v') # rest) name v =
     (if name' = name then (name, v) # rest else (name', v') # setProp rest name v)"

definition deleteProp :: "object \<Rightarrow> string \<Rightarrow> object" where
  "deleteProp obj name = filter (\<lambda>(name', v). name' \<noteq> name) obj"

text \<open>
  What \<open>canonicalizeAndGroup\<close> returns, as far as the Discloser reads it:
  \<open>groups.mandatory.matching\<close>, \<open>groups.selective.matching\<close>, \<open>groups.combined.matching\<close>,
  \<open>groups.combined.deskolemizedNQuads\<close> and \<open>labelMap\<close> (the entries of a \<open>Map\<close> of strings).
\<close>

datatype canonicalized =
  Canonicalized "string jsmap" "string jsmap" "string jsmap" "string list"
    "(string \<times> string) list"

text \<open>
  The collaborators of the Discloser are parameters, each returning its value or the
  error it throws, none changing the store: \<open>createHmac\<close> on the key;
  \<open>canonicalizeAndGroup\<close> on the document, the label map function of the HMAC and the
  mandatory, selective and combined pointers; \<open>selectJsonLd\<close> on the document and the
  pointers, returning the properties of a new object or \<open>null\<close>; \<open>canonicalize\<close> on the
  joined N-Quads, returning the entries of the \<open>canonicalIdMap\<close> it fills, after
  \<open>stripBlankNodePrefixes\<close>; and \<open>dataIntegrityProof.matchProof\<close> on a proof.
\<close>

record 'h primitives =
  createHmac :: "jsval \<Rightarrow> js_error + 'h"
  canonicalizeAndGroup ::
    "object \<Rightarrow> 'h \<Rightarrow> jsval list \<Rightarrow> jsval list \<Rightarrow> jsval list \<Rightarrow> js_error + canonicalized"
  selectJsonLd :: "object \<Rightarrow> jsval list \<Rightarrow> js_error + object option"
  canonicalize :: "string \<Rightarrow> js_error + (string \<times> string) list"
  matchProof :: "object \<Rightarrow> js_error + bool"

text \<open>
  A cryptosuite: its \<open>name\<close> and its \<open>options\<close>. The options are \<open>None\<close> when
  \<open>cryptosuite.options\<close> is \<open>undefined\<close> or \<open>null\<close>, \<open>NotAnObject\<close> when it is any other value
  that is not an object (a number, a string, a boolean; reading \<open>proofId\<close> from it gives
  \<open>undefined\<close>), and otherwise the object that \<open>createDiscloseCryptosuite\<close> builds, which
  holds \<open>proofId\<close> (\<open>None\<close> when undefined) and the array \<open>selectivePointers\<close>.
\<close>

datatype disclose_options = Options "string option" "jsval list" | NotAnObject

datatype cryptosuite = Cryptosuite string "disclose_options option"

text \<open>
  What \<open>_createDisclosureData\<close> returns, in the order \<open>baseSignature\<close>, \<open>publicKey\<close>,
  \<open>signatures\<close>, \<open>labelMap\<close>, \<open>mandatoryIndexes\<close>, \<open>revealDoc\<close>.
\<close>

datatype disclosure_data =
  DisclosureData jsval jsval jsval jsval jsval "object option"

definition msgCryptosuiteName :: "string \<Rightarrow> string" where
  \<open>msgCryptosuiteName name = ''"cryptosuite.name" must be "'' @ name @ ''".''\<close>

definition msgCryptosuiteOptions :: string where
  \<open>msgCryptosuiteOptions = ''"cryptosuite.options" must be an object.''\<close>

definition msgNothingSelected :: string where
  "msgNothingSelected = ''Nothing selected for disclosure.''"

text \<open>The elements of an array; the parsers return these parameters validated as arrays.\<close>

definition arrayElements :: "jsval \<Rightarrow> jsval list" where
  "arrayElements v = (case v of JArr xs \<Rightarrow> xs | _ \<Rightarrow> [])"

text \<open>\<^verbatim>\<open>v?.length > 0\<close>\<close>

definition lengthPositive :: "jsval \<Rightarrow> bool" where
  "lengthPositive v =
     (case v of JArr xs \<Rightarrow> 0 < length xs | JStr s \<Rightarrow> 0 < length s
      | JBytes bs \<Rightarrow> 0 < length bs | _ \<Rightarrow> False)"

text \<open>
  \<^verbatim>\<open>for(const [inputLabel, verifierLabel] of canonicalIdMap) {
    verifierLabelMap.set(verifierLabel, labelMap.get(inputLabel));
  }\<close>
\<close>

fun verifierLabelMapLoop ::
  "(string \<times> string) list \<Rightarrow> (string \<times> string) list \<Rightarrow> (jsval \<times> jsval) list
     \<Rightarrow> (jsval \<times> jsval) list" where
  "verifierLabelMapLoop labelMap [] verifierLabelMap = verifierLabelMap"
| "verifierLabelMapLoop labelMap ((inputLabel, verifierLabel) # rest) verifierLabelMap =
     verifierLabelMapLoop labelMap rest
       (mapSet verifierLabelMap (JStr verifierLabel)
          (case map_of labelMap inputLabel of None \<Rightarrow> JUndefined | Some l \<Rightarrow> JStr l))"

text \<open>
  The part of \<open>_createDisclosureData\<close> after \<open>canonicalizeAndGroup\<close> has returned: the
  relative mandatory indexes, the filtered signatures, the revealed document and the
  verifier's label map.
\<close>

fun disclosureFromGroups ::
  "'h primitives \<Rightarrow> object \<Rightarrow> jsval list \<Rightarrow> jsval \<Rightarrow> jsval \<Rightarrow> jsval \<Rightarrow> canonicalized
     \<Rightarrow> js_error + disclosure_data" where
  "disclosureFromGroups prim document combinedPointers baseSignature publicKey signatures
     (Canonicalized mandatory selective combined deskolemizedNQuads labelMap) =
     (let indexes = mandatoryIndexes mandatory combined;
          filtered = filteredSignatures mandatory selective (arrayElements signatures)
      in
      andThen (selectJsonLd prim document combinedPointers) (\<lambda>revealDoc.
      andThen (canonicalize prim (concat deskolemizedNQuads)) (\<lambda>canonicalIdMap.
      Inr (DisclosureData baseSignature publicKey (JArr filtered)
             (JMap (verifierLabelMapLoop labelMap canonicalIdMap []))
             (JArr (map (\<lambda>i. JNum (Fin (of_nat i))) indexes))
             revealDoc))))"

text \<open>
  The part of \<open>_createDisclosureData\<close> after \<open>parseBaseProofValue\<close> has returned, with
  the \<open>selectivePointers\<close> of the options.
\<close>

fun discloseParsed ::
  "'h primitives \<Rightarrow> object \<Rightarrow> jsval list \<Rightarrow> base_params \<Rightarrow> js_error + disclosure_data" where
  "discloseParsed prim document selectivePointers
     (BaseProofParams baseSignature publicKey hmacKey signatures mandatoryPointers) =
     (if \<not> (lengthPositive mandatoryPointers \<or> 0 < length selectivePointers)
      then Inl (Error msgNothingSelected)
      else
        andThen (createHmac prim hmacKey) (\<lambda>hmac.
        let combinedPointers = arrayElements mandatoryPointers @ selectivePointers in
        andThen (canonicalizeAndGroup prim document hmac
                   (arrayElements mandatoryPointers) selectivePointers combinedPointers)
          (disclosureFromGroups prim document combinedPointers baseSignature publicKey
             signatures)))"

text \<open>
  \<open>_createDisclosureData\<close>. The first parameter is the constant \<open>name\<close> of \<open>lib/name.js\<close>.
  The document is given by its properties, the proof as a value.
\<close>

definition createDisclosureData ::
  "string \<Rightarrow> libraries \<Rightarrow> 'h primitives \<Rightarrow> cryptosuite option \<Rightarrow> object \<Rightarrow> jsval
     \<Rightarrow> js_error + disclosure_data" where
  "createDisclosureData name lib prim cryptosuite document proof =
     (case cryptosuite of
        None \<Rightarrow> Inl (TypeError (msgCryptosuiteName name) None)
      | Some (Cryptosuite cryptosuiteName cryptosuiteOptions) \<Rightarrow>
          if cryptosuiteName \<noteq> name then Inl (TypeError (msgCryptosuiteName name) None)
          else
            (case cryptosuiteOptions of
               None \<Rightarrow> Inl (TypeError msgCryptosuiteOptions None)
             | Some NotAnObject \<Rightarrow> Inl (TypeError msgCryptosuiteOptions None)
             | Some (Options proofId selectivePointers) \<Rightarrow>
                 andThen (parseBaseProofValue lib proof)
                   (discloseParsed prim document selectivePointers)))"

subsection \<open>\<open>_findProof\<close> and \<open>_derive\<close>\<close>

definition msgMultipleProofs :: string where
  \<open>msgMultipleProofs = ''Multiple matching proofs; a "proofId" must be specified.''\<close>

definition msgNoMatchingProof :: string where
  "msgNoMatchingProof =
     ''No matching base proof found from which to derive a disclosure proof.''"

definition msgPurposeMismatch :: string where
  "msgPurposeMismatch = ''Base proof purpose does not match purpose for derived proof.''"

text \<open>
  The loop of \<open>_findProof\<close> over the proof set, a list of addresses; the last argument
  is the proof found so far.
\<close>

fun matchLoop ::
  "'h primitives \<Rightarrow> store \<Rightarrow> nat list \<Rightarrow> nat option \<Rightarrow> js_error + nat option" where
  "matchLoop prim st [] found = Inr found"
| "matchLoop prim st (p # rest) found =
     andThen (matchProof prim (objectAt st p)) (\<lambda>matches.
     if matches then
       (case found of
          Some q \<Rightarrow> Inl (Error msgMultipleProofs)
        | None \<Rightarrow> matchLoop prim st rest (Some p))
     else matchLoop prim st rest found)"

text \<open>\<open>_findProof\<close>: an empty \<open>proofId\<close> is falsy, like an undefined one.\<close>

definition findProof ::
  "'h primitives \<Rightarrow> store \<Rightarrow> string option \<Rightarrow> nat list \<Rightarrow> js_error + nat" where
  "findProof prim st proofId proofSet =
     andThen
       (case proofId of
          None \<Rightarrow> matchLoop prim st proofSet None
        | Some i \<Rightarrow>
            if i = [] then matchLoop prim st proofSet None
            else Inr (find (\<lambda>p. optionalProp (JObj (objectAt st p)) ''id'' = JStr i) proofSet))
       (\<lambda>found. case found of
          None \<Rightarrow> Inl (Error msgNoMatchingProof)
        | Some p \<Rightarrow> Inr p)"

text \<open>
  The statements of \<open>_derive\<close> after \<open>_createDisclosureData\<close> has returned, on the store:
  \<^verbatim>\<open>const newProof = {...baseProof};
  newProof.proofValue = await serializeDisclosureProofValue(
    {baseSignature, publicKey, signatures, labelMap, mandatoryIndexes});
  delete newProof['@context'];
  revealDoc.proof = newProof;
  return revealDoc;\<close>
  The object that \<open>selectJsonLd\<close> returned is allocated first, then the copy of the base
  proof. The result is the store afterwards and the address of \<open>revealDoc\<close>, or the error
  thrown.
\<close>

fun attachDerivedProof ::
  "libraries \<Rightarrow> store \<Rightarrow> nat \<Rightarrow> disclosure_data \<Rightarrow> store \<times> (js_error + nat)" where
  "attachDerivedProof lib st baseProof
     (DisclosureData baseSignature publicKey signatures labelMap mandatoryIndexes' revealDoc) =
     (let st1 = (case revealDoc of None \<Rightarrow> st | Some obj \<Rightarrow> st @ [obj]);
          newProof = length st1;
          st2 = st1 @ [objectAt st1 baseProof]
      in case serializeDisclosureProofValue lib
                (DerivedProofParams baseSignature publicKey signatures labelMap mandatoryIndexes') of
           Inl e \<Rightarrow> (st2, Inl e)
         | Inr proofValue \<Rightarrow>
             let st3 = st2[newProof := setProp (st2 ! newProof) ''proofValue'' (JStr proofValue)];
                 st4 = st3[newProof := deleteProp (st3 ! newProof) ''@context'']
             in case revealDoc of
                  None \<Rightarrow> (st4, Inl (TypeError msgNullish None))
                | Some obj \<Rightarrow>
                    (st4[length st := setProp (st4 ! length st) ''proof'' (JRef newProof)],
                     Inr (length st)))"

text \<open>
  \<^verbatim>\<open>const {options: {proofId}} = cryptosuite;\<close> the \<open>proofId\<close> read from the options
  that are not \<open>undefined\<close> or \<open>null\<close>.
\<close>

fun optionsProofId :: "disclose_options \<Rightarrow> string option" where
  "optionsProofId (Options proofId selectivePointers) = proofId"
| "optionsProofId NotAnObject = None"

text \<open>
  \<open>_derive\<close>: the document and the proofs of the proof set are addresses of the store,
  \<open>purpose.term\<close> is a string. The destructuring of the cryptosuite throws when the
  cryptosuite or its options are \<open>undefined\<close> or \<open>null\<close>.
\<close>

definition derive ::
  "string \<Rightarrow> libraries \<Rightarrow> 'h primitives \<Rightarrow> store \<Rightarrow> cryptosuite option \<Rightarrow> nat
     \<Rightarrow> string \<Rightarrow> nat list \<Rightarrow> store \<times> (js_error + nat)" where
  "derive name lib prim st cryptosuite document purposeTerm proofSet =
     (case cryptosuite of
        None \<Rightarrow> (st, Inl (TypeError msgNullish None))
      | Some (Cryptosuite cryptosuiteName None) \<Rightarrow> (st, Inl (TypeError msgNullish None))
      | Some (Cryptosuite cryptosuiteName (Some cryptosuiteOptions)) \<Rightarrow>
          (case findProof prim st (optionsProofId cryptosuiteOptions) proofSet of
             Inl e \<Rightarrow> (st, Inl e)
           | Inr baseProof \<Rightarrow>
               if optionalProp (JObj (objectAt st baseProof)) ''proofPurpose'' \<noteq> JStr purposeTerm
               then (st, Inl (Error msgPurposeMismatch))
               else
                 (case createDisclosureData name lib prim cryptosuite (objectAt st document)
                         (JObj (objectAt st baseProof)) of
                    Inl e \<Rightarrow> (st, Inl e)
                  | Inr d \<Rightarrow> attachDerivedProof lib st baseProof d)))"

section \<open>Instances of the parameters\<close>

text \<open>
  Stand-ins for the collaborators, used where a property is instantiated at concrete
  inputs. The statement key's \<open>verify\<close> accepts a signature equal to the data.
\<close>

definition demoCrypto :: "unit crypto" where
  "demoCrypto = \<lparr> base58_encode = (\<lambda>bytes. []),
                  SM2Multikey_from = (\<lambda>publicKeyMultibase. Inr ()),
                  keyVerify = (\<lambda>key data signature. signature = data),
                  stringToUtf8Bytes = (\<lambda>s. map (\<lambda>c. of_nat (of_char c)) s) \<rparr>"

text \<open>
  The libraries on the inputs of the instances: \<open>AQID\<close> is the base64url text of the
  bytes 1, 2, 3; \<open>2V0AgA\<close> and \<open>2V0BgA\<close> are the texts of the base and the derived prefix
  followed by the CBOR encoding \<open>0x80\<close> of the empty array; \<open>demoBaseText\<close>,
  \<open>demoDerivedText\<close> and \<open>demoRevealText\<close> are the texts of the prefixes followed by the
  CBOR encodings of the payloads \<open>demoBasePayload\<close>, \<open>demoDerivedPayload\<close> and
  \<open>demoRevealPayload\<close>. Every other input is answered with an error.
\<close>

definition demoBaseCbor :: "byte list" where
  "demoBaseCbor = [0x85, 0x58, 0x40] @ replicate 64 0 @ [0x58, 0x23] @ replicate 35 0
     @ [0x58, 0x20] @ replicate 32 0 @ [0x80, 0x80]"

definition demoBaseText :: string where
  "demoBaseText = ''2V0AhVhAAAAAAAAAAAAAAAAAAAAAAAAAAAAAAAAAAAAAAAAAAAAAAAAAAAAAAAAAAAAAAAAAAAAAAAAAAAAAAAAAAAAAAFgjAAAAAAAAAAAAAAAAAAAAAAAAAAAAAAAAAAAAAAAAAAAAAABYIAAAAAAAAAAAAAAAAAAAAAAAAAAAAAAAAAAAAAAAAAAAgIA''"

definition demoDerivedCbor :: "byte list" where
  "demoDerivedCbor = [0x85, 0x58, 0x40] @ replicate 64 0 @ [0x58, 0x23] @ replicate 35 0
     @ [0x80, 0xa1, 0x00, 0x43, 1, 2, 3, 0x81, 0x00]"

definition demoDerivedText :: string where
  "demoDerivedText = ''2V0BhVhAAAAAAAAAAAAAAAAAAAAAAAAAAAAAAAAAAAAAAAAAAAAAAAAAAAAAAAAAAAAAAAAAAAAAAAAAAAAAAAAAAAAAAFgjAAAAAAAAAAAAAAAAAAAAAAAAAAAAAAAAAAAAAAAAAAAAAACAoQBDAQIDgQA''"

definition demoRevealCbor :: "byte list" where
  "demoRevealCbor = [0x85, 0x58, 0x40] @ replicate 64 0 @ [0x58, 0x23] @ replicate 35 0
     @ [0x80, 0xa0, 0x80]"

definition demoRevealText :: string where
  "demoRevealText = ''2V0BhVhAAAAAAAAAAAAAAAAAAAAAAAAAAAAAAAAAAAAAAAAAAAAAAAAAAAAAAAAAAAAAAAAAAAAAAAAAAAAAAAAAAAAAAFgjAAAAAAAAAAAAAAAAAAAAAAAAAAAAAAAAAAAAAAAAAAAAAACAoIA''"

definition demoRevealPayload :: jsval where
  "demoRevealPayload = JArr [JBytes (replicate 64 0), JBytes (replicate 35 0), JArr [],
     JMap [], JArr []]"

definition demoBasePayload :: jsval where
  "demoBasePayload = JArr [JBytes (replicate 64 0), JBytes (replicate 35 0),
     JBytes (replicate 32 0), JArr [], JArr []]"

definition demoDerivedPayload :: jsval where
  "demoDerivedPayload = JArr [JBytes (replicate 64 0), JBytes (replicate 35 0), JArr [],
     JMap [(JNum (Fin 0), JBytes [1, 2, 3])], JArr [JNum (Fin 0)]]"

definition demoBaseParams :: base_params where
  "demoBaseParams = BaseProofParams (JBytes (replicate 64 0)) (JBytes (replicate 35 0))
     (JBytes (replicate 32 0)) (JArr []) (JArr [])"

definition demoDerivedParams :: derived_params where
  "demoDerivedParams = DerivedProofParams (JBytes (replicate 64 0)) (JBytes (replicate 35 0))
     (JArr []) (JMap [(JStr ''c14n0'', JStr ''uAQID'')]) (JArr [JNum (Fin 0)])"

definition demoLibraries :: libraries where
  "demoLibraries =
     \<lparr> base64url_decode = (\<lambda>v.
         if v = JStr ''AQID'' then Inr [1, 2, 3]
         else if v = JStr ''2V0AgA'' then Inr [0xd9, 0x5d, 0x00, 0x80]
         else if v = JStr ''2V0BgA'' then Inr [0xd9, 0x5d, 0x01, 0x80]
         else if v = JStr demoBaseText then Inr (CBOR_PREFIX_BASE @ demoBaseCbor)
         else if v = JStr demoDerivedText then Inr (CBOR_PREFIX_DERIVED @ demoDerivedCbor)
         else Inl (Error ''Illegal base64 string.'')),
       base64url_encode = (\<lambda>v.
         if v = JBytes [1, 2, 3] then Inr ''AQID''
         else if v = JBytes (CBOR_PREFIX_BASE @ demoBaseCbor) then Inr demoBaseText
         else if v = JBytes (CBOR_PREFIX_DERIVED @ demoDerivedCbor) then Inr demoDerivedText
         else if v = JBytes (CBOR_PREFIX_DERIVED @ demoRevealCbor) then Inr demoRevealText
         else Inl (TypeError ''Unsupported input.'' None)),
       cborg_decode = (\<lambda>bytes.
         if bytes = [0x80] then Inr (JArr [])
         else if bytes = demoBaseCbor then Inr demoBasePayload
         else if bytes = demoDerivedCbor then Inr demoDerivedPayload
         else Inl (Error ''CBOR decode error'')),
       cborg_encode = (\<lambda>v.
         if v = demoBasePayload then Inr demoBaseCbor
         else if v = demoDerivedPayload then Inr demoDerivedCbor
         else if v = demoRevealPayload then Inr demoRevealCbor
         else Inl (Error ''CBOR encode error'')),
       numberDigits = (\<lambda>q. ''?'') \<rparr>"

text \<open>
  Collaborators of the Discloser for a document without statements: no statement
  matches a pointer, the label map is empty, and \<open>selectJsonLd\<close> returns an object that
  holds a context only.
\<close>

definition demoPrimitives :: "unit primitives" where
  "demoPrimitives =
     \<lparr> createHmac = (\<lambda>key. Inr ()),
       canonicalizeAndGroup = (\<lambda>document hmac mandatoryPointers selectivePointers
          combinedPointers. Inr (Canonicalized [] [] [] [] [])),
       selectJsonLd = (\<lambda>document pointers.
          Inr (Some [(''@context'', JStr ''https://www.w3.org/ns/credentials/v2'')])),
       canonicalize = (\<lambda>nquads. Inr []),
       matchProof = (\<lambda>proof. Inr True) \<rparr>"

text \<open>A document and a base proof whose value is the serialized \<open>demoBaseParams\<close>.\<close>

definition demoDocument :: object where
  "demoDocument = [(''@context'', JStr ''https://www.w3.org/ns/credentials/v2''),
                   (''id'', JStr ''urn:example:1'')]"


definition demoProof :: object where
  "demoProof =
     [(''@context'', JStr ''https://www.w3.org/ns/credentials/v2''),
      (''type'', JStr ''DataIntegrityProof''),
      (''proofPurpose'', JStr ''assertionMethod''),
      (''proofValue'', JStr (CHR ''u'' # demoBaseText))]"

section \<open>Properties of the Discloser's index bookkeeping\<close>












section \<open>Properties of the Verifier\<close>

text \<open>
  C3. When the number of signatures differs from the number of non-mandatory
  statements, \<open>_multiverify\<close> throws: it does not return \<open>false\<close>, and it has made no call
  to the statement key's \<open>verify\<close>. When \<open>SM2Multikey.from\<close> has returned a key, the error
  thrown is the signature count error.
\<close>

theorem multiverify_count_mismatch:
  assumes "length signatures \<noteq> length nonMandatory"
  shows "(\<exists>e. multiverify c verifier
            (VerifyData baseSignature proofHash publicKey signatures nonMandatory mandatoryHash)
          = ([], Inl e))
       \<and> snd (multiverify c verifier
            (VerifyData baseSignature proofHash publicKey signatures nonMandatory mandatoryHash))
          \<noteq> Inr False
       \<and> (\<forall>key. SM2Multikey_from c (CHR ''z'' # base58_encode c publicKey) = Inr key \<longrightarrow>
            multiverify c verifier
              (VerifyData baseSignature proofHash publicKey signatures nonMandatory mandatoryHash)
            = ([], Inl (Error (msgSignatureCount (length signatures) (length nonMandatory)))))"
  using assms by (auto split: sum.splits)

theorem multiverify_count_mismatch_witness:
  "multiverify demoCrypto (\<lambda>data signature. True)
     (VerifyData [] [] [] [[1], [2]] [''a''] [])
   = ([], Inl (Error ''Signature count (2) does not match non-mandatory message count (1).''))"
  using multiverify_count_mismatch
    [of "[[1], [2]]" "[''a'']" demoCrypto "\<lambda>data signature. True" "[]" "[]" "[]" "[]"]
  by (simp add: demoCrypto_def msgSignatureCount_def decimal.simps digitChar_def)

lemma list_ex_not_map:
  "list_ex (\<lambda>r. \<not> r) (map f xs) \<longleftrightarrow> \<not> (\<forall>x \<in> set xs. f x)"
  by (induction xs) auto

lemma statementCalls_nth:
  "statementCalls c signatures nonMandatory
     = map (\<lambda>i. (stringToUtf8Bytes c (nonMandatory ! i), signatures ! i))
         [0..<length signatures]"
  unfolding statementCalls_def by (rule nth_equalityI) auto

lemma statementCalls_all:
  "(\<forall>x \<in> set (statementCalls c signatures nonMandatory). case x of (d, s) \<Rightarrow> P d s)
   \<longleftrightarrow> (\<forall>i < length signatures. P (stringToUtf8Bytes c (nonMandatory ! i)) (signatures ! i))"
  by (auto simp: statementCalls_nth)

text \<open>
  C4. When \<open>SM2Multikey.from\<close> has returned the statement key, the counts agree and the
  hashes and the public key have their lengths, \<open>_multiverify\<close> returns the conjunction of
  the checks of every \<open>signatures[i]\<close> against the UTF-8 bytes of \<open>nonMandatory[i]\<close> under
  the statement key and of the check of \<open>baseSignature\<close> against
  \<open>proofHash ++ publicKey ++ mandatoryHash\<close> under the long-term key.
\<close>

theorem multiverify_conjunction:
  assumes "SM2Multikey_from c (CHR ''z'' # base58_encode c publicKey) = Inr key"
    and "length signatures = length nonMandatory"
    and "length proofHash = 32" and "length publicKey = 35" and "length mandatoryHash = 32"
  shows "snd (multiverify c verifier
           (VerifyData baseSignature proofHash publicKey signatures nonMandatory mandatoryHash))
         = Inr ((\<forall>i < length signatures.
                   keyVerify c key (stringToUtf8Bytes c (nonMandatory ! i)) (signatures ! i))
                \<and> verifier (proofHash @ publicKey @ mandatoryHash) baseSignature)"
proof -
  let ?calls = "statementCalls c signatures nonMandatory"
  have ex: "list_ex (\<lambda>r. \<not> r) (map (\<lambda>(data, signature). keyVerify c key data signature) ?calls)
        \<longleftrightarrow> \<not> (\<forall>i < length signatures.
               keyVerify c key (stringToUtf8Bytes c (nonMandatory ! i)) (signatures ! i))"
    using statementCalls_all [of c signatures nonMandatory "keyVerify c key"]
    by (simp add: list_ex_not_map)
  show ?thesis
    using assms ex
    by (simp add: Let_def serializeBaseVerifyData_def validateBaseVerifyDataParams_def
        andThen_def concatBuffers_def)
qed

theorem multiverify_conjunction_witness:
  "snd (multiverify demoCrypto (\<lambda>data signature. signature = [7])
      (VerifyData [7] (replicate 32 0) (replicate 35 0) [[97], [98]] [''a'', ''b'']
         (replicate 32 0))) = Inr True
   \<and> snd (multiverify demoCrypto (\<lambda>data signature. signature = [7])
      (VerifyData [7] (replicate 32 0) (replicate 35 0) [[97], [99]] [''a'', ''b'']
         (replicate 32 0))) = Inr False"
  using multiverify_conjunction
    [of demoCrypto "replicate 35 0" "()" "[[97], [98]]" "[''a'', ''b'']" "replicate 32 0"
        "replicate 32 0" "\<lambda>data signature. signature = [7]" "[7]"]
    multiverify_conjunction
    [of demoCrypto "replicate 35 0" "()" "[[97], [99]]" "[''a'', ''b'']" "replicate 32 0"
        "replicate 32 0" "\<lambda>data signature. signature = [7]" "[7]"]
  by (simp add: demoCrypto_def less_Suc_eq numeral_2_eq_2)

section \<open>Properties of numbers and strings\<close>

lemma digit_cases: "d < 10 \<Longrightarrow> d \<in> {0, 1, 2, 3, 4, 5, 6, 7, 8, 9 :: nat}"
  by auto

lemma digitChar_props:
  assumes "d < 10"
  shows "isDigit (digitChar d)" and "digitValue (digitChar d) = d"
  using digit_cases [OF assms]
  by (auto simp: digitChar_def isDigit_def digitValue_def)

lemma decimal_all_digits: "list_all isDigit (decimal n)"
proof (induction n rule: decimal.induct)
  case (1 n)
  show ?case
  proof (cases "n < 10")
    case True
    then show ?thesis by (simp add: decimal.simps [of n] digitChar_props)
  next
    case False
    then show ?thesis using 1 by (simp add: decimal.simps [of n] digitChar_props)
  qed
qed

lemma decimal_nonempty: "decimal n \<noteq> []"
  by (simp add: decimal.simps [of n])

lemma digitsValue_snoc: "digitsValue (z @ [c]) = 10 * digitsValue z + digitValue c"
  by (simp add: digitsValue_def)

lemma digitsValue_decimal: "digitsValue (decimal n) = n"
proof (induction n rule: decimal.induct)
  case (1 n)
  show ?case
  proof (cases "n < 10")
    case True
    then show ?thesis by (simp add: decimal.simps [of n] digitsValue_def digitChar_props)
  next
    case False
    then show ?thesis using 1
      by (simp add: decimal.simps [of n] digitsValue_snoc digitChar_props)
  qed
qed

lemma decimal_inj: "decimal m = decimal n \<Longrightarrow> m = n"
proof -
  assume "decimal m = decimal n"
  then have "digitsValue (decimal m) = digitsValue (decimal n)" by (rule arg_cong)
  then show "m = n" by (simp only: digitsValue_decimal)
qed

lemma takeWhile_all: "list_all P xs \<Longrightarrow> takeWhile P xs = xs"
  by (induction xs) auto

lemma isDigit_not_space: "isDigit c \<Longrightarrow> \<not> isWhiteSpace c"
  by (auto simp: isDigit_def isWhiteSpace_def)

lemma isDigit_not_sign: "isDigit c \<Longrightarrow> c \<noteq> CHR ''-'' \<and> c \<noteq> CHR ''+''"
  by (auto simp: isDigit_def)

lemma toF64_safe: "n < 2 ^ 53 \<Longrightarrow> toF64 n = Some n"
  by (simp add: toF64_def)

lemma parseInt_decimal:
  assumes "n < 2 ^ 53"
  shows "parseInt (decimal n) = Fin (of_nat n)"
proof -
  obtain c cs where d: "decimal n = c # cs"
    using decimal_nonempty [of n] by (cases "decimal n") auto
  have c: "isDigit c" using decimal_all_digits [of n] d by simp
  have tw: "takeWhile isDigit (c # cs) = c # cs"
    using takeWhile_all [OF decimal_all_digits [of n]] d by simp
  have dv: "digitsValue (c # cs) = n" using digitsValue_decimal [of n] d by simp
  show ?thesis
    unfolding parseInt_def d
    using isDigit_not_space [OF c] isDigit_not_sign [OF c] tw dv toF64_safe [OF assms]
    by (simp add: Let_def)
qed

lemma Number_toString_nat:
  assumes "n \<le> 2 ^ 53"
  shows "Number_toString other (Fin (of_nat n)) = decimal n"
proof -
  have "(of_nat n :: rat) \<le> 2 ^ 53"
    using assms of_nat_mono [of n "2 ^ 53", where 'a = rat] by simp
  then show ?thesis
    by (simp add: Number_toString_def isIntegral_def intToString_def)
qed

section \<open>Properties of the codec\<close>

lemma startsWithBytes_take: "startsWithBytes buffer prefix \<longleftrightarrow> take (length prefix) buffer = prefix"
  by (induction buffer prefix rule: startsWithBytes.induct) auto

lemma length_CBOR_PREFIX_BASE: "length CBOR_PREFIX_BASE = 3"
  by (simp add: CBOR_PREFIX_BASE_def)

lemma length_CBOR_PREFIX_DERIVED: "length CBOR_PREFIX_DERIVED = 3"
  by (simp add: CBOR_PREFIX_DERIVED_def)

lemma startsWith_base: "startsWithBytes bytes CBOR_PREFIX_BASE \<longleftrightarrow> take 3 bytes = CBOR_PREFIX_BASE"
  using startsWithBytes_take [of bytes CBOR_PREFIX_BASE] by (simp add: length_CBOR_PREFIX_BASE)

lemma startsWith_derived:
  "startsWithBytes bytes CBOR_PREFIX_DERIVED \<longleftrightarrow> take 3 bytes = CBOR_PREFIX_DERIVED"
  using startsWithBytes_take [of bytes CBOR_PREFIX_DERIVED]
  by (simp add: length_CBOR_PREFIX_DERIVED)

lemma catch_Inr: "catchInvalidProofValue r = Inr x \<longleftrightarrow> r = Inr x"
  by (auto simp: catchInvalidProofValue_def split: sum.splits)

lemma andThen_Inr_iff: "andThen r f = Inr y \<longleftrightarrow> (\<exists>x. r = Inr x \<and> f x = Inr y)"
  by (cases r) (simp_all add: andThen_def)

lemma take1_u: "take (Suc 0) s = ''u'' \<longleftrightarrow> (\<exists>t. s = CHR ''u'' # t)"
  by (cases s) auto

lemma assertProofValue_ok:
  "assertProofValue proof = Inr u \<longleftrightarrow> (\<exists>t. optionalProp proof ''proofValue'' = JStr (CHR ''u'' # t))"
  by (auto simp: assertProofValue_def take1_u split: jsval.splits)

lemma decodeProofValue_string:
  "optionalProp proof ''proofValue'' = JStr s \<Longrightarrow>
   decodeProofValue lib proof = base64url_decode lib (JStr (drop 1 s))"
  by (auto simp: decodeProofValue_def optionalProp_def getProp_def js_slice_def andThen_def
      split: jsval.splits option.splits)

lemma isDerived_ok:
  "isDerivedProofValue lib proof = Inr b \<longleftrightarrow>
   (\<exists>t bytes. optionalProp proof ''proofValue'' = JStr (CHR ''u'' # t)
      \<and> base64url_decode lib (JStr t) = Inr bytes
      \<and> b = (take 3 bytes = CBOR_PREFIX_DERIVED))"
  unfolding isDerivedProofValue_def andThen_Inr_iff assertProofValue_ok
  by (auto simp: decodeProofValue_string startsWith_derived)

lemma isBase_ok:
  "isBaseProofValue lib proof = Inr b \<longleftrightarrow>
   (\<exists>t bytes. optionalProp proof ''proofValue'' = JStr (CHR ''u'' # t)
      \<and> base64url_decode lib (JStr t) = Inr bytes
      \<and> b = (take 3 bytes = CBOR_PREFIX_BASE))"
  unfolding isBaseProofValue_def andThen_Inr_iff assertProofValue_ok
  by (auto simp: decodeProofValue_string startsWith_base)

lemma parseBase_ok:
  "parseBaseProofValue lib proof = Inr params \<longleftrightarrow>
   (\<exists>t bytes decoded items.
      optionalProp proof ''proofValue'' = JStr (CHR ''u'' # t)
      \<and> base64url_decode lib (JStr t) = Inr bytes
      \<and> take 3 bytes = CBOR_PREFIX_BASE
      \<and> cborg_decode lib (drop 3 bytes) = Inr decoded
      \<and> js_iterate decoded = Inr items
      \<and> params = BaseProofParams (element items 0) (element items 1) (element items 2)
                   (element items 3) (element items 4)
      \<and> validateBaseProofParams params = Inr ())"
  by (auto simp: parseBaseProofValue_def catch_Inr parseBaseProofValueBody_def andThen_Inr_iff
      isBase_ok length_CBOR_PREFIX_BASE Let_def decodeProofValue_string
      simp del: validateBaseProofParams.simps)

lemma parseDisclosure_ok:
  "parseDisclosureProofValue lib proof = Inr params \<longleftrightarrow>
   (\<exists>t bytes decoded items labelMap.
      optionalProp proof ''proofValue'' = JStr (CHR ''u'' # t)
      \<and> base64url_decode lib (JStr t) = Inr bytes
      \<and> take 3 bytes = CBOR_PREFIX_DERIVED
      \<and> cborg_decode lib (drop 3 bytes) = Inr decoded
      \<and> js_iterate decoded = Inr items
      \<and> decompressLabelMap lib (element items 3) = Inr labelMap
      \<and> params = DerivedProofParams (element items 0) (element items 1) (element items 2)
                   labelMap (element items 4)
      \<and> validateDerivedProofParams params = Inr ())"
  by (auto simp: parseDisclosureProofValue_def catch_Inr parseDisclosureProofValueBody_def
      andThen_Inr_iff isDerived_ok length_CBOR_PREFIX_DERIVED Let_def decodeProofValue_string
      simp del: validateDerivedProofParams.simps)

lemma mapSet_fresh: "k \<notin> fst ` set m \<Longrightarrow> mapSet m k v = m @ [(k, v)]"
  by (induction m) auto

lemma compressLoop_entries:
  assumes "\<forall>(n, bytes, encoded) \<in> set es.
             n < 2 ^ 53 \<and> base64url_decode lib (JStr encoded) = Inr bytes"
    and "distinct (map fst es)"
    and "\<forall>(n, bytes, encoded) \<in> set es. JNum (Fin (of_nat n)) \<notin> fst ` set acc"
  shows "compressLoop lib (labelEntries es) acc = Inr (acc @ compressedEntries es)"
  using assms
proof (induction es arbitrary: acc)
  case Nil
  then show ?case by (simp add: labelEntries_def compressedEntries_def)
next
  case (Cons e es)
  obtain n bytes encoded where e: "e = (n, bytes, encoded)" by (cases e) auto
  have n: "n < 2 ^ 53" and dec: "base64url_decode lib (JStr encoded) = Inr bytes"
    using Cons.prems(1) e by auto
  have fresh: "JNum (Fin (of_nat n)) \<notin> fst ` set acc" using Cons.prems(3) e by auto
  let ?acc = "acc @ [(JNum (Fin (of_nat n)), JBytes bytes)]"
  have "\<forall>(n', bytes', encoded') \<in> set es. JNum (Fin (of_nat n')) \<notin> fst ` set ?acc"
    using Cons.prems(2,3) e by (auto simp: image_iff)
  then have "compressLoop lib (labelEntries es) ?acc = Inr (?acc @ compressedEntries es)"
    using Cons.IH [of ?acc] Cons.prems(1,2) by simp
  then show ?case
    using dec fresh
    by (simp add: e labelEntries_def compressedEntries_def js_slice_def andThen_def
        parseInt_decimal [OF n] mapSet_fresh)
qed

lemma decompressLoop_entries:
  assumes "\<forall>(n, bytes, encoded) \<in> set es.
             n < 2 ^ 53 \<and> base64url_encode lib (JBytes bytes) = Inr encoded"
    and "distinct (map fst es)"
    and "\<forall>(n, bytes, encoded) \<in> set es. JStr (''c14n'' @ decimal n) \<notin> fst ` set acc"
  shows "decompressLoop lib (compressedEntries es) acc = Inr (acc @ labelEntries es)"
  using assms
proof (induction es arbitrary: acc)
  case Nil
  then show ?case by (simp add: labelEntries_def compressedEntries_def)
next
  case (Cons e es)
  obtain n bytes encoded where e: "e = (n, bytes, encoded)" by (cases e) auto
  have n: "n \<le> 2 ^ 53" and enc: "base64url_encode lib (JBytes bytes) = Inr encoded"
    using Cons.prems(1) e by auto
  have fresh: "JStr (''c14n'' @ decimal n) \<notin> fst ` set acc" using Cons.prems(3) e by auto
  let ?acc = "acc @ [(JStr (''c14n'' @ decimal n), JStr (CHR ''u'' # encoded))]"
  have "\<forall>(n', bytes', encoded') \<in> set es. JStr (''c14n'' @ decimal n') \<notin> fst ` set ?acc"
    using Cons.prems(2,3) e by (fastforce simp: image_iff dest!: decimal_inj)
  then have "decompressLoop lib (compressedEntries es) ?acc = Inr (?acc @ labelEntries es)"
    using Cons.IH [of ?acc] Cons.prems(1,2) by simp
  then show ?case
    using enc fresh
    by (simp add: e labelEntries_def compressedEntries_def andThen_def
        Number_toString_nat [OF n] mapSet_fresh)
qed

lemma compress_labelMap:
  assumes "\<forall>(n, bytes, encoded) \<in> set es.
             n < 2 ^ 53 \<and> base64url_decode lib (JStr encoded) = Inr bytes"
    and "distinct (map fst es)"
  shows "compressLabelMap lib (JMap (labelEntries es)) = Inr (JMap (compressedEntries es))"
  using compressLoop_entries [OF assms, of "[]"]
  by (simp add: compressLabelMap_def js_entries_def andThen_def)

lemma decompress_labelMap:
  assumes "\<forall>(n, bytes, encoded) \<in> set es.
             n < 2 ^ 53 \<and> base64url_encode lib (JBytes bytes) = Inr encoded"
    and "distinct (map fst es)"
  shows "decompressLabelMap lib (JMap (compressedEntries es)) = Inr (JMap (labelEntries es))"
  using decompressLoop_entries [OF assms, of "[]"]
  by (simp add: decompressLabelMap_def js_entries_def andThen_def)

lemma element_simps:
  "element (a # xs) 0 = a"
  "element (a # b # xs) (Suc 0) = b"
  "element (a # b # c # xs) 2 = c"
  "element (a # b # c # d # xs) 3 = d"
  "element (a # b # c # d # e # xs) 4 = e"
  by (simp_all add: element_def)

lemma base_roundtrip:
  assumes valid: "validateBaseProofParams
                    (BaseProofParams baseSignature publicKey hmacKey signatures pointers) = Inr ()"
    and enc: "cborg_encode lib (JArr [baseSignature, publicKey, hmacKey, signatures, pointers])
                = Inr cbor"
    and dec: "cborg_decode lib cbor
                = Inr (JArr [baseSignature, publicKey, hmacKey, signatures, pointers])"
    and b64e: "base64url_encode lib (JBytes (CBOR_PREFIX_BASE @ cbor)) = Inr encoded"
    and b64d: "base64url_decode lib (JStr encoded) = Inr (CBOR_PREFIX_BASE @ cbor)"
    and pv: "optionalProp proof ''proofValue'' = JStr (CHR ''u'' # encoded)"
  shows "serializeBaseProofValue lib
           (BaseProofParams baseSignature publicKey hmacKey signatures pointers)
           = Inr (CHR ''u'' # encoded)
       \<and> parseBaseProofValue lib proof
           = Inr (BaseProofParams baseSignature publicKey hmacKey signatures pointers)"
proof -
  have s: "serializeBaseProofValue lib
           (BaseProofParams baseSignature publicKey hmacKey signatures pointers)
           = Inr (CHR ''u'' # encoded)"
    using valid enc b64e
    by (simp add: andThen_def concatBuffers_def del: validateBaseProofParams.simps)
  have "parseBaseProofValue lib proof
           = Inr (BaseProofParams baseSignature publicKey hmacKey signatures pointers)"
    unfolding parseBase_ok
    using valid dec b64d pv
    by (intro exI [of _ encoded] exI [of _ "CBOR_PREFIX_BASE @ cbor"]
        exI [of _ "JArr [baseSignature, publicKey, hmacKey, signatures, pointers]"]
        exI [of _ "[baseSignature, publicKey, hmacKey, signatures, pointers]"])
      (simp add: js_iterate_def element_simps length_CBOR_PREFIX_BASE
        del: validateBaseProofParams.simps)
  with s show ?thesis by simp
qed

lemma derived_roundtrip:
  assumes entries: "distinct (map fst es)"
      "\<forall>(n, bytes, text) \<in> set es.
         n < 2 ^ 53 \<and> base64url_encode lib (JBytes bytes) = Inr text
         \<and> base64url_decode lib (JStr text) = Inr bytes"
    and valid: "validateDerivedProofParams
                  (DerivedProofParams baseSignature publicKey signatures
                     (JMap (labelEntries es)) indexes) = Inr ()"
    and enc: "cborg_encode lib
                (JArr [baseSignature, publicKey, signatures, JMap (compressedEntries es), indexes])
                = Inr cbor"
    and dec: "cborg_decode lib cbor
                = Inr (JArr [baseSignature, publicKey, signatures, JMap (compressedEntries es),
                         indexes])"
    and b64e: "base64url_encode lib (JBytes (CBOR_PREFIX_DERIVED @ cbor)) = Inr encoded"
    and b64d: "base64url_decode lib (JStr encoded) = Inr (CBOR_PREFIX_DERIVED @ cbor)"
    and pv: "optionalProp proof ''proofValue'' = JStr (CHR ''u'' # encoded)"
  shows "serializeDisclosureProofValue lib
           (DerivedProofParams baseSignature publicKey signatures (JMap (labelEntries es)) indexes)
           = Inr (CHR ''u'' # encoded)
       \<and> parseDisclosureProofValue lib proof
           = Inr (DerivedProofParams baseSignature publicKey signatures
                    (JMap (labelEntries es)) indexes)"
proof -
  have c: "compressLabelMap lib (JMap (labelEntries es)) = Inr (JMap (compressedEntries es))"
    using entries by (intro compress_labelMap) auto
  have d: "decompressLabelMap lib (JMap (compressedEntries es)) = Inr (JMap (labelEntries es))"
    using entries by (intro decompress_labelMap) auto
  have s: "serializeDisclosureProofValue lib
           (DerivedProofParams baseSignature publicKey signatures (JMap (labelEntries es)) indexes)
           = Inr (CHR ''u'' # encoded)"
    using valid enc b64e c
    by (simp add: andThen_def concatBuffers_def del: validateDerivedProofParams.simps)
  have "parseDisclosureProofValue lib proof
           = Inr (DerivedProofParams baseSignature publicKey signatures
                    (JMap (labelEntries es)) indexes)"
    unfolding parseDisclosure_ok
    using valid dec b64d pv d
    by (intro exI [of _ encoded] exI [of _ "CBOR_PREFIX_DERIVED @ cbor"]
        exI [of _ "JArr [baseSignature, publicKey, signatures, JMap (compressedEntries es),
                         indexes]"]
        exI [of _ "[baseSignature, publicKey, signatures, JMap (compressedEntries es), indexes]"]
        exI [of _ "JMap (labelEntries es)"])
      (simp add: js_iterate_def element_simps length_CBOR_PREFIX_DERIVED
        del: validateDerivedProofParams.simps)
  with s show ?thesis by simp
qed

text \<open>
  C5, as amended. Compression followed by decompression is the identity on a label map
  in canonical form: distinct keys \<open>c14n\<close> followed by the decimal numeral (no sign, no
  leading zero) of a number below \<open>2 ^ 53\<close>, values \<open>u\<close> followed by the text that
  \<open>base64url.encode\<close> gives for some bytes and that \<open>base64url.decode\<close> reads back.
  Parsing the serialized value of base parameters that pass validation gives the
  parameters back, and so for derived parameters whose label map is in canonical form,
  when \<open>cborg.decode\<close> reads back the payload that \<open>cborg.encode\<close> wrote and
  \<open>base64url.decode\<close> the bytes that \<open>base64url.encode\<close> wrote.
\<close>

theorem codec_roundtrip:
  "(distinct (map fst es)
      \<and> (\<forall>(n, bytes, encoded) \<in> set es.
            n < 2 ^ 53 \<and> base64url_encode lib (JBytes bytes) = Inr encoded
            \<and> base64url_decode lib (JStr encoded) = Inr bytes)
    \<longrightarrow> andThen (compressLabelMap lib (JMap (labelEntries es))) (decompressLabelMap lib)
          = Inr (JMap (labelEntries es)))
   \<and> (validateBaseProofParams
         (BaseProofParams baseSignature publicKey hmacKey signatures pointers) = Inr ()
      \<and> cborg_encode lib (JArr [baseSignature, publicKey, hmacKey, signatures, pointers])
          = Inr cbor
      \<and> cborg_decode lib cbor
          = Inr (JArr [baseSignature, publicKey, hmacKey, signatures, pointers])
      \<and> base64url_encode lib (JBytes (CBOR_PREFIX_BASE @ cbor)) = Inr encoded
      \<and> base64url_decode lib (JStr encoded) = Inr (CBOR_PREFIX_BASE @ cbor)
      \<and> optionalProp proof ''proofValue'' = JStr (CHR ''u'' # encoded)
    \<longrightarrow> serializeBaseProofValue lib
          (BaseProofParams baseSignature publicKey hmacKey signatures pointers)
          = Inr (CHR ''u'' # encoded)
        \<and> parseBaseProofValue lib proof
          = Inr (BaseProofParams baseSignature publicKey hmacKey signatures pointers))
   \<and> (distinct (map fst es)
      \<and> (\<forall>(n, bytes, encoded) \<in> set es.
            n < 2 ^ 53 \<and> base64url_encode lib (JBytes bytes) = Inr encoded
            \<and> base64url_decode lib (JStr encoded) = Inr bytes)
      \<and> validateDerivedProofParams
          (DerivedProofParams baseSignature' publicKey' signatures' (JMap (labelEntries es))
             indexes) = Inr ()
      \<and> cborg_encode lib
          (JArr [baseSignature', publicKey', signatures', JMap (compressedEntries es), indexes])
          = Inr cbor'
      \<and> cborg_decode lib cbor'
          = Inr (JArr [baseSignature', publicKey', signatures', JMap (compressedEntries es),
                   indexes])
      \<and> base64url_encode lib (JBytes (CBOR_PREFIX_DERIVED @ cbor')) = Inr encoded'
      \<and> base64url_decode lib (JStr encoded') = Inr (CBOR_PREFIX_DERIVED @ cbor')
      \<and> optionalProp proof' ''proofValue'' = JStr (CHR ''u'' # encoded')
    \<longrightarrow> serializeDisclosureProofValue lib
          (DerivedProofParams baseSignature' publicKey' signatures' (JMap (labelEntries es))
             indexes)
          = Inr (CHR ''u'' # encoded')
        \<and> parseDisclosureProofValue lib proof'
          = Inr (DerivedProofParams baseSignature' publicKey' signatures'
                   (JMap (labelEntries es)) indexes))"
proof (intro conjI impI)
  assume a: "distinct (map fst es)
      \<and> (\<forall>(n, bytes, encoded) \<in> set es.
            n < 2 ^ 53 \<and> base64url_encode lib (JBytes bytes) = Inr encoded
            \<and> base64url_decode lib (JStr encoded) = Inr bytes)"
  have c: "compressLabelMap lib (JMap (labelEntries es)) = Inr (JMap (compressedEntries es))"
    using a by (intro compress_labelMap) auto
  have d: "decompressLabelMap lib (JMap (compressedEntries es)) = Inr (JMap (labelEntries es))"
    using a by (intro decompress_labelMap) auto
  show "andThen (compressLabelMap lib (JMap (labelEntries es))) (decompressLabelMap lib)
          = Inr (JMap (labelEntries es))"
    by (simp add: c d andThen_def)
next
  assume "validateBaseProofParams
         (BaseProofParams baseSignature publicKey hmacKey signatures pointers) = Inr ()
      \<and> cborg_encode lib (JArr [baseSignature, publicKey, hmacKey, signatures, pointers])
          = Inr cbor
      \<and> cborg_decode lib cbor
          = Inr (JArr [baseSignature, publicKey, hmacKey, signatures, pointers])
      \<and> base64url_encode lib (JBytes (CBOR_PREFIX_BASE @ cbor)) = Inr encoded
      \<and> base64url_decode lib (JStr encoded) = Inr (CBOR_PREFIX_BASE @ cbor)
      \<and> optionalProp proof ''proofValue'' = JStr (CHR ''u'' # encoded)"
  then have r: "serializeBaseProofValue lib
          (BaseProofParams baseSignature publicKey hmacKey signatures pointers)
          = Inr (CHR ''u'' # encoded)
        \<and> parseBaseProofValue lib proof
          = Inr (BaseProofParams baseSignature publicKey hmacKey signatures pointers)"
    by (intro base_roundtrip) auto
  from r show "serializeBaseProofValue lib
          (BaseProofParams baseSignature publicKey hmacKey signatures pointers)
          = Inr (CHR ''u'' # encoded)" by (rule conjunct1)
  from r show "parseBaseProofValue lib proof
          = Inr (BaseProofParams baseSignature publicKey hmacKey signatures pointers)"
    by (rule conjunct2)
next
  assume "distinct (map fst es)
      \<and> (\<forall>(n, bytes, encoded) \<in> set es.
            n < 2 ^ 53 \<and> base64url_encode lib (JBytes bytes) = Inr encoded
            \<and> base64url_decode lib (JStr encoded) = Inr bytes)
      \<and> validateDerivedProofParams
          (DerivedProofParams baseSignature' publicKey' signatures' (JMap (labelEntries es))
             indexes) = Inr ()
      \<and> cborg_encode lib
          (JArr [baseSignature', publicKey', signatures', JMap (compressedEntries es), indexes])
          = Inr cbor'
      \<and> cborg_decode lib cbor'
          = Inr (JArr [baseSignature', publicKey', signatures', JMap (compressedEntries es),
                   indexes])
      \<and> base64url_encode lib (JBytes (CBOR_PREFIX_DERIVED @ cbor')) = Inr encoded'
      \<and> base64url_decode lib (JStr encoded') = Inr (CBOR_PREFIX_DERIVED @ cbor')
      \<and> optionalProp proof' ''proofValue'' = JStr (CHR ''u'' # encoded')"
  then have r: "serializeDisclosureProofValue lib
          (DerivedProofParams baseSignature' publicKey' signatures' (JMap (labelEntries es))
             indexes)
          = Inr (CHR ''u'' # encoded')
        \<and> parseDisclosureProofValue lib proof'
          = Inr (DerivedProofParams baseSignature' publicKey' signatures'
                   (JMap (labelEntries es)) indexes)"
    by (intro derived_roundtrip) auto
  from r show "serializeDisclosureProofValue lib
          (DerivedProofParams baseSignature' publicKey' signatures' (JMap (labelEntries es))
             indexes)
          = Inr (CHR ''u'' # encoded')" by (rule conjunct1)
  from r show "parseDisclosureProofValue lib proof'
          = Inr (DerivedProofParams baseSignature' publicKey' signatures'
                   (JMap (labelEntries es)) indexes)" by (rule conjunct2)
qed


lemma demo_labelEntries: "labelEntries [(0, [1, 2, 3], ''AQID'')] = [(JStr ''c14n0'', JStr ''uAQID'')]"
  by (simp add: labelEntries_def decimal.simps digitChar_def)

lemma demo_compressedEntries:
  "compressedEntries [(0, [1, 2, 3], ''AQID'')] = [(JNum (Fin 0), JBytes [1, 2, 3])]"
  by (simp add: compressedEntries_def)

theorem codec_roundtrip_witness:
  "andThen (compressLabelMap demoLibraries (JMap [(JStr ''c14n0'', JStr ''uAQID'')]))
     (decompressLabelMap demoLibraries) = Inr (JMap [(JStr ''c14n0'', JStr ''uAQID'')])
   \<and> serializeBaseProofValue demoLibraries demoBaseParams = Inr (CHR ''u'' # demoBaseText)
   \<and> parseBaseProofValue demoLibraries (JObj [(''proofValue'', JStr (CHR ''u'' # demoBaseText))])
       = Inr demoBaseParams
   \<and> serializeDisclosureProofValue demoLibraries demoDerivedParams
       = Inr (CHR ''u'' # demoDerivedText)
   \<and> parseDisclosureProofValue demoLibraries
         (JObj [(''proofValue'', JStr (CHR ''u'' # demoDerivedText))])
       = Inr demoDerivedParams"
proof -
  have e: "distinct (map fst [(0::nat, [1, 2, 3 :: byte], ''AQID'')])
      \<and> (\<forall>(n, bytes, encoded) \<in> set [(0::nat, [1, 2, 3 :: byte], ''AQID'')].
            n < 2 ^ 53 \<and> base64url_encode demoLibraries (JBytes bytes) = Inr encoded
            \<and> base64url_decode demoLibraries (JStr encoded) = Inr bytes)"
    by (simp add: demoLibraries_def)
  have v1: "validateBaseProofParams
      (BaseProofParams (JBytes (replicate 64 0)) (JBytes (replicate 35 0))
         (JBytes (replicate 32 0)) (JArr []) (JArr [])) = Inr ()"
    by (simp add: isUint8ArrayOfLength_def isArrayOf_def)
  have c1: "cborg_encode demoLibraries (JArr [JBytes (replicate 64 0), JBytes (replicate 35 0),
         JBytes (replicate 32 0), JArr [], JArr []]) = Inr demoBaseCbor"
    by (simp add: demoLibraries_def demoBasePayload_def)
  have c2: "cborg_decode demoLibraries demoBaseCbor
      = Inr (JArr [JBytes (replicate 64 0), JBytes (replicate 35 0),
         JBytes (replicate 32 0), JArr [], JArr []])"
    by (simp add: demoLibraries_def demoBasePayload_def demoBaseCbor_def)
  have b1: "base64url_encode demoLibraries (JBytes (CBOR_PREFIX_BASE @ demoBaseCbor))
      = Inr demoBaseText"
    by (simp add: demoLibraries_def CBOR_PREFIX_BASE_def)
  have b2: "base64url_decode demoLibraries (JStr demoBaseText)
      = Inr (CBOR_PREFIX_BASE @ demoBaseCbor)"
    by (simp add: demoLibraries_def demoBaseText_def)
  have p1: "optionalProp (JObj [(''proofValue'', JStr (CHR ''u'' # demoBaseText))]) ''proofValue''
      = JStr (CHR ''u'' # demoBaseText)"
    by (simp add: optionalProp_def)
  have v2: "validateDerivedProofParams
      (DerivedProofParams (JBytes (replicate 64 0)) (JBytes (replicate 35 0)) (JArr [])
        (JMap (labelEntries [(0, [1, 2, 3], ''AQID'')])) (JArr [JNum (Fin 0)])) = Inr ()"
    by (simp add: demo_labelEntries isUint8ArrayOfLength_def isArrayOf_def isString_def
        Number_isInteger_def isIntegral_def)
  have c3: "cborg_encode demoLibraries (JArr [JBytes (replicate 64 0), JBytes (replicate 35 0),
        JArr [], JMap (compressedEntries [(0, [1, 2, 3], ''AQID'')]), JArr [JNum (Fin 0)]])
      = Inr demoDerivedCbor"
    by (simp add: demoLibraries_def demoDerivedPayload_def demoBasePayload_def
        demo_compressedEntries)
  have c4: "cborg_decode demoLibraries demoDerivedCbor
      = Inr (JArr [JBytes (replicate 64 0), JBytes (replicate 35 0),
        JArr [], JMap (compressedEntries [(0, [1, 2, 3], ''AQID'')]), JArr [JNum (Fin 0)]])"
    by (simp add: demoLibraries_def demoDerivedPayload_def demoDerivedCbor_def demoBaseCbor_def
        demo_compressedEntries)
  have b3: "base64url_encode demoLibraries (JBytes (CBOR_PREFIX_DERIVED @ demoDerivedCbor))
      = Inr demoDerivedText"
    by (simp add: demoLibraries_def CBOR_PREFIX_DERIVED_def CBOR_PREFIX_BASE_def)
  have b4: "base64url_decode demoLibraries (JStr demoDerivedText)
      = Inr (CBOR_PREFIX_DERIVED @ demoDerivedCbor)"
    by (simp add: demoLibraries_def demoDerivedText_def demoBaseText_def)
  have p2: "optionalProp (JObj [(''proofValue'', JStr (CHR ''u'' # demoDerivedText))])
        ''proofValue'' = JStr (CHR ''u'' # demoDerivedText)"
    by (simp add: optionalProp_def)
  show ?thesis
    using e v1 c1 c2 b1 b2 p1 v2 c3 c4 b3 b4 p2
      codec_roundtrip
      [of "[(0, [1, 2, 3], ''AQID'')]" demoLibraries
          "JBytes (replicate 64 0)" "JBytes (replicate 35 0)" "JBytes (replicate 32 0)"
          "JArr []" "JArr []" demoBaseCbor demoBaseText
          "JObj [(''proofValue'', JStr (CHR ''u'' # demoBaseText))]"
          "JBytes (replicate 64 0)" "JBytes (replicate 35 0)" "JArr []" "JArr [JNum (Fin 0)]"
          demoDerivedCbor demoDerivedText
          "JObj [(''proofValue'', JStr (CHR ''u'' # demoDerivedText))]"]
    unfolding demo_labelEntries demoBaseParams_def demoDerivedParams_def
    by blast
qed

text \<open>
  The round trip of the label map fails on a key whose number is not a safe integer
  (\<open>parseInt\<close> rounds \<open>9007199254740993\<close> to the double \<open>9007199254740992\<close>) and on a key
  with a leading zero.
\<close>

theorem labelMap_roundtrip_counterexample:
  "andThen (compressLabelMap demoLibraries (JMap [(JStr ''c14n9007199254740993'', JStr ''uAQID'')]))
     (decompressLabelMap demoLibraries)
     = Inr (JMap [(JStr ''c14n9007199254740992'', JStr ''uAQID'')])
   \<and> andThen (compressLabelMap demoLibraries
         (JMap [(JStr ''c14n9007199254740993'', JStr ''uAQID'')]))
     (decompressLabelMap demoLibraries)
     \<noteq> Inr (JMap [(JStr ''c14n9007199254740993'', JStr ''uAQID'')])
   \<and> andThen (compressLabelMap demoLibraries (JMap [(JStr ''c14n007'', JStr ''uAQID'')]))
     (decompressLabelMap demoLibraries)
     = Inr (JMap [(JStr ''c14n7'', JStr ''uAQID'')])
   \<and> andThen (compressLabelMap demoLibraries (JMap [(JStr ''c14n007'', JStr ''uAQID'')]))
     (decompressLabelMap demoLibraries)
     \<noteq> Inr (JMap [(JStr ''c14n007'', JStr ''uAQID'')])"
proof -
  have c1: "compressLabelMap demoLibraries (JMap [(JStr ''c14n9007199254740993'', JStr ''uAQID'')])
      = Inr (JMap [(JNum (Fin 9007199254740992), JBytes [1, 2, 3])])"
    by (simp add: compressLabelMap_def js_entries_def andThen_def js_slice_def demoLibraries_def
        parseInt_def isWhiteSpace_def isDigit_def digitsValue_def digitValue_def toF64_def
        bitLength.simps Let_def)
  have d1: "decompressLabelMap demoLibraries (JMap [(JNum (Fin 9007199254740992), JBytes [1, 2, 3])])
      = Inr (JMap [(JStr ''c14n9007199254740992'', JStr ''uAQID'')])"
    by (simp add: decompressLabelMap_def js_entries_def andThen_def demoLibraries_def
        Number_toString_def isIntegral_def intToString_def decimal.simps digitChar_def)
  have c2: "compressLabelMap demoLibraries (JMap [(JStr ''c14n007'', JStr ''uAQID'')])
      = Inr (JMap [(JNum (Fin 7), JBytes [1, 2, 3])])"
    by (simp add: compressLabelMap_def js_entries_def andThen_def js_slice_def demoLibraries_def
        parseInt_def isWhiteSpace_def isDigit_def digitsValue_def digitValue_def toF64_def
        Let_def)
  have d2: "decompressLabelMap demoLibraries (JMap [(JNum (Fin 7), JBytes [1, 2, 3])])
      = Inr (JMap [(JStr ''c14n7'', JStr ''uAQID'')])"
    by (simp add: decompressLabelMap_def js_entries_def andThen_def demoLibraries_def
        Number_toString_def isIntegral_def intToString_def decimal.simps digitChar_def)
  show ?thesis by (simp add: c1 d1 c2 d2 andThen_def)
qed


text \<open>
  C6, as amended. \<open>_validateDerivedProofParams\<close>, which \<open>serializeDisclosureProofValue\<close>
  runs first and \<open>parseDisclosureProofValue\<close> runs on what it decoded, throws a
  \<open>TypeError\<close> whose message names an offending parameter whenever \<open>baseSignature\<close> is not
  a \<open>Uint8Array\<close> of 64 bytes, \<open>publicKey\<close> is not one of 35 bytes, \<open>signatures\<close> is not an
  array of \<open>Uint8Array\<close>s, \<open>labelMap\<close> is not a \<open>Map\<close> of strings to strings, or
  \<open>mandatoryIndexes\<close> is not an array of integers.
\<close>

theorem validateDerived_raises:
  assumes "\<not> isUint8ArrayOfLength baseSignature 64
         \<or> \<not> isUint8ArrayOfLength publicKey 35
         \<or> \<not> isArrayOf isUint8Array signatures
         \<or> \<not> (case labelMap of
                  JMap kvs \<Rightarrow> list_all (\<lambda>(k, v). isString k \<and> isString v) kvs
                | _ \<Rightarrow> False)
         \<or> \<not> isArrayOf Number_isInteger indexes"
  shows "\<exists>message.
           validateDerivedProofParams
             (DerivedProofParams baseSignature publicKey signatures labelMap indexes)
             = Inl (TypeError message None)
         \<and> serializeDisclosureProofValue lib
             (DerivedProofParams baseSignature publicKey signatures labelMap indexes)
             = Inl (TypeError message None)
         \<and> ((message = msgBaseSignature \<and> \<not> isUint8ArrayOfLength baseSignature 64)
            \<or> (message = msgPublicKey \<and> \<not> isUint8ArrayOfLength publicKey 35)
            \<or> (message = msgSignatures \<and> \<not> isArrayOf isUint8Array signatures)
            \<or> (message = msgLabelMap
                 \<and> \<not> (case labelMap of
                          JMap kvs \<Rightarrow> list_all (\<lambda>(k, v). isString k \<and> isString v) kvs
                        | _ \<Rightarrow> False))
            \<or> (message = msgMandatoryIndexes \<and> \<not> isArrayOf Number_isInteger indexes))"
  using assms by (auto simp: andThen_def)

lemma three_halves_not_integral: "\<not> isIntegral (3 / 2)"
proof -
  have "\<lfloor>3 / 2 :: rat\<rfloor> = 1" by linarith
  then show ?thesis by (simp add: isIntegral_def)
qed

theorem validateDerived_raises_witness:
  "validateDerivedProofParams
     (DerivedProofParams (JBytes (replicate 64 0)) (JBytes (replicate 35 0))
        (JArr [JBytes (replicate 64 0)]) (JMap [(JStr ''c14n0'', JStr ''uAQID'')])
        (JArr [JNum (Fin (3 / 2))]))
   = Inl (TypeError msgMandatoryIndexes None)"
  using validateDerived_raises
    [of "JBytes (replicate 64 0)" "JBytes (replicate 35 0)" "JArr [JBytes (replicate 64 0)]"
        "JMap [(JStr ''c14n0'', JStr ''uAQID'')]" "JArr [JNum (Fin (3 / 2))]" demoLibraries]
  by (simp add: isUint8ArrayOfLength_def isArrayOf_def isUint8Array_def isString_def
      Number_isInteger_def three_halves_not_integral)

text \<open>
  Validation passes a label map whose key is not of the form \<open>c14n\<close> and a number and
  whose value carries no multibase tag.
\<close>

theorem validateDerived_counterexample:
  "validateDerivedProofParams
     (DerivedProofParams (JBytes (replicate 64 0)) (JBytes (replicate 35 0))
        (JArr [JBytes (replicate 64 0)]) (JMap [(JStr ''label'', JStr '''')])
        (JArr [JNum (Fin 0)]))
   = Inr ()"
  by (simp add: isUint8ArrayOfLength_def isArrayOf_def isUint8Array_def isString_def
      Number_isInteger_def isIntegral_def)

lemma isDerived_wrong_prefix:
  assumes "optionalProp proof ''proofValue'' = JStr (CHR ''u'' # encoded)"
    and "base64url_decode lib (JStr encoded) = Inr bytes"
    and "take 3 bytes \<noteq> CBOR_PREFIX_DERIVED"
  shows "isDerivedProofValue lib proof = Inr False"
  using assms by (simp add: isDerived_ok)

lemma isBase_wrong_prefix:
  assumes "optionalProp proof ''proofValue'' = JStr (CHR ''u'' # encoded)"
    and "base64url_decode lib (JStr encoded) = Inr bytes"
    and "take 3 bytes \<noteq> CBOR_PREFIX_BASE"
  shows "isBaseProofValue lib proof = Inr False"
  using assms by (simp add: isBase_ok)

lemma isDerived_decoder: "isDerivedProofValue (lib\<lparr>cborg_decode := d\<rparr>) proof = isDerivedProofValue lib proof"
  by (simp add: isDerivedProofValue_def decodeProofValue_def)

lemma isBase_decoder: "isBaseProofValue (lib\<lparr>cborg_decode := d\<rparr>) proof = isBaseProofValue lib proof"
  by (simp add: isBaseProofValue_def decodeProofValue_def)

text \<open>
  C8. The base and derived prefixes are distinct constants of three bytes. When the
  bytes decoded from the proof value do not begin with the parser's prefix, the parser
  throws the \<open>TypeError\<close> whose cause says that the value must be a derived (a base)
  proof, whatever \<open>cborg.decode\<close> would do: the prefix is checked before the body is
  decoded.
\<close>

theorem prefix_checked_before_decode:
  assumes "optionalProp proof ''proofValue'' = JStr (CHR ''u'' # encoded)"
    and "base64url_decode lib (JStr encoded) = Inr bytes"
  shows "CBOR_PREFIX_BASE \<noteq> CBOR_PREFIX_DERIVED
     \<and> length CBOR_PREFIX_BASE = 3 \<and> length CBOR_PREFIX_DERIVED = 3
     \<and> (take 3 bytes \<noteq> CBOR_PREFIX_DERIVED \<longrightarrow>
          (\<forall>decoder. parseDisclosureProofValue (lib\<lparr>cborg_decode := decoder\<rparr>) proof
             = Inl (TypeError msgInvalidProofValue (Some (TypeError msgMustBeDerived None)))))
     \<and> (take 3 bytes \<noteq> CBOR_PREFIX_BASE \<longrightarrow>
          (\<forall>decoder. parseBaseProofValue (lib\<lparr>cborg_decode := decoder\<rparr>) proof
             = Inl (TypeError msgInvalidProofValue (Some (TypeError msgMustBeBase None)))))"
proof -
  have dec: "decodeProofValue (lib\<lparr>cborg_decode := d\<rparr>) proof = Inr bytes" for d
    using assms by (simp add: decodeProofValue_string)
  have d: "take 3 bytes \<noteq> CBOR_PREFIX_DERIVED \<Longrightarrow>
      parseDisclosureProofValue (lib\<lparr>cborg_decode := d\<rparr>) proof
        = Inl (TypeError msgInvalidProofValue (Some (TypeError msgMustBeDerived None)))" for d
    using isDerived_wrong_prefix [OF assms] dec [of d]
    by (simp add: parseDisclosureProofValue_def parseDisclosureProofValueBody_def
        catchInvalidProofValue_def andThen_def isDerived_decoder)
  have b: "take 3 bytes \<noteq> CBOR_PREFIX_BASE \<Longrightarrow>
      parseBaseProofValue (lib\<lparr>cborg_decode := d\<rparr>) proof
        = Inl (TypeError msgInvalidProofValue (Some (TypeError msgMustBeBase None)))" for d
    using isBase_wrong_prefix [OF assms] dec [of d]
    by (simp add: parseBaseProofValue_def parseBaseProofValueBody_def
        catchInvalidProofValue_def andThen_def isBase_decoder)
  have "CBOR_PREFIX_BASE \<noteq> CBOR_PREFIX_DERIVED"
    by (simp add: CBOR_PREFIX_BASE_def CBOR_PREFIX_DERIVED_def)
  then show ?thesis
    using d b by (simp add: length_CBOR_PREFIX_BASE length_CBOR_PREFIX_DERIVED)
qed

theorem prefix_checked_before_decode_witness:
  "parseDisclosureProofValue demoLibraries (JObj [(''proofValue'', JStr ''u2V0AgA'')])
     = Inl (TypeError msgInvalidProofValue (Some (TypeError msgMustBeDerived None)))
   \<and> parseBaseProofValue demoLibraries (JObj [(''proofValue'', JStr ''u2V0BgA'')])
     = Inl (TypeError msgInvalidProofValue (Some (TypeError msgMustBeBase None)))"
proof -
  have l: "demoLibraries\<lparr>cborg_decode := cborg_decode demoLibraries\<rparr> = demoLibraries"
    by simp
  have p1: "optionalProp (JObj [(''proofValue'', JStr ''u2V0AgA'')]) ''proofValue''
      = JStr (CHR ''u'' # ''2V0AgA'')"
    by (simp add: optionalProp_def)
  have d1: "base64url_decode demoLibraries (JStr ''2V0AgA'') = Inr [0xd9, 0x5d, 0x00, 0x80]"
    by (simp add: demoLibraries_def)
  have p2: "optionalProp (JObj [(''proofValue'', JStr ''u2V0BgA'')]) ''proofValue''
      = JStr (CHR ''u'' # ''2V0BgA'')"
    by (simp add: optionalProp_def)
  have d2: "base64url_decode demoLibraries (JStr ''2V0BgA'') = Inr [0xd9, 0x5d, 0x01, 0x80]"
    by (simp add: demoLibraries_def)
  have n1: "take 3 [0xd9, 0x5d, 0x00, 0x80] \<noteq> CBOR_PREFIX_DERIVED"
    by (simp add: CBOR_PREFIX_DERIVED_def)
  have n2: "take 3 [0xd9, 0x5d, 0x01, 0x80] \<noteq> CBOR_PREFIX_BASE"
    by (simp add: CBOR_PREFIX_BASE_def)
  have "parseDisclosureProofValue (demoLibraries\<lparr>cborg_decode := cborg_decode demoLibraries\<rparr>)
          (JObj [(''proofValue'', JStr ''u2V0AgA'')])
        = Inl (TypeError msgInvalidProofValue (Some (TypeError msgMustBeDerived None)))"
    using prefix_checked_before_decode [OF p1 d1] n1 by blast
  moreover have "parseBaseProofValue (demoLibraries\<lparr>cborg_decode := cborg_decode demoLibraries\<rparr>)
          (JObj [(''proofValue'', JStr ''u2V0BgA'')])
        = Inl (TypeError msgInvalidProofValue (Some (TypeError msgMustBeBase None)))"
    using prefix_checked_before_decode [OF p2 d2] n2 by blast
  ultimately show ?thesis by (simp only: l)
qed

lemma catch_cause:
  "catchInvalidProofValue r = Inl e \<longleftrightarrow>
   (\<exists>cause. r = Inl cause \<and> e = TypeError msgInvalidProofValue (Some cause))"
  by (auto simp: catchInvalidProofValue_def split: sum.splits)

lemma parseBase_cases:
  "case parseBaseProofValue lib proof of
      Inl e \<Rightarrow> \<exists>cause. parseBaseProofValueBody lib proof = Inl cause
                 \<and> e = TypeError msgInvalidProofValue (Some cause)
    | Inr params \<Rightarrow>
        \<exists>encoded bytes decoded items.
          optionalProp proof ''proofValue'' = JStr (CHR ''u'' # encoded)
          \<and> base64url_decode lib (JStr encoded) = Inr bytes
          \<and> take 3 bytes = CBOR_PREFIX_BASE
          \<and> cborg_decode lib (drop 3 bytes) = Inr decoded
          \<and> js_iterate decoded = Inr items
          \<and> validateBaseProofParams params = Inr ()"
proof (cases "parseBaseProofValue lib proof")
  case (Inl e)
  then show ?thesis
    using catch_cause [of "parseBaseProofValueBody lib proof" e]
    by (simp add: parseBaseProofValue_def)
next
  case (Inr params)
  then show ?thesis using parseBase_ok [of lib "proof" params] by auto
qed

lemma parseDisclosure_cases:
  "case parseDisclosureProofValue lib proof of
      Inl e \<Rightarrow> \<exists>cause. parseDisclosureProofValueBody lib proof = Inl cause
                 \<and> e = TypeError msgInvalidProofValue (Some cause)
    | Inr params \<Rightarrow>
        \<exists>encoded bytes decoded items labelMap.
          optionalProp proof ''proofValue'' = JStr (CHR ''u'' # encoded)
          \<and> base64url_decode lib (JStr encoded) = Inr bytes
          \<and> take 3 bytes = CBOR_PREFIX_DERIVED
          \<and> cborg_decode lib (drop 3 bytes) = Inr decoded
          \<and> js_iterate decoded = Inr items
          \<and> decompressLabelMap lib (element items 3) = Inr labelMap
          \<and> validateDerivedProofParams params = Inr ()"
proof (cases "parseDisclosureProofValue lib proof")
  case (Inl e)
  then show ?thesis
    using catch_cause [of "parseDisclosureProofValueBody lib proof" e]
    by (simp add: parseDisclosureProofValue_def)
next
  case (Inr params)
  then show ?thesis using parseDisclosure_ok [of lib "proof" params] by auto
qed

text \<open>The original errors of the try block, cause by cause.\<close>

lemma cause_decode:
  assumes "decodeProofValue lib proof = Inl err"
  shows "parseBaseProofValue lib proof = Inl (TypeError msgInvalidProofValue (Some err))"
    and "parseDisclosureProofValue lib proof = Inl (TypeError msgInvalidProofValue (Some err))"
  using assms
  by (simp_all add: parseBaseProofValue_def parseBaseProofValueBody_def
      parseDisclosureProofValue_def parseDisclosureProofValueBody_def
      catchInvalidProofValue_def andThen_def)

lemma cause_assert:
  assumes "decodeProofValue lib proof = Inr bytes"
    and "assertProofValue proof = Inl err"
  shows "parseBaseProofValue lib proof = Inl (TypeError msgInvalidProofValue (Some err))"
    and "parseDisclosureProofValue lib proof = Inl (TypeError msgInvalidProofValue (Some err))"
  using assms
  by (simp_all add: parseBaseProofValue_def parseBaseProofValueBody_def
      parseDisclosureProofValue_def parseDisclosureProofValueBody_def
      isBaseProofValue_def isDerivedProofValue_def
      catchInvalidProofValue_def andThen_def)

lemma assert_not_string:
  "\<not> isString (optionalProp proof ''proofValue'') \<Longrightarrow>
   assertProofValue proof = Inl (TypeError msgMustBeString None)"
  by (auto simp: assertProofValue_def isString_def split: jsval.splits)

lemma assert_no_tag:
  "optionalProp proof ''proofValue'' = JStr s \<Longrightarrow> take 1 s \<noteq> ''u'' \<Longrightarrow>
   assertProofValue proof = Inl (TypeError msgOnlyBase64url None)"
  by (simp add: assertProofValue_def)

lemma body_base_after_prefix:
  assumes "optionalProp proof ''proofValue'' = JStr (CHR ''u'' # encoded)"
    and "base64url_decode lib (JStr encoded) = Inr bytes"
    and "take 3 bytes = CBOR_PREFIX_BASE"
  shows "parseBaseProofValueBody lib proof =
     andThen (cborg_decode lib (drop 3 bytes)) (\<lambda>decoded.
     andThen (js_iterate decoded) (\<lambda>items.
     let params = BaseProofParams (element items 0) (element items 1) (element items 2)
                    (element items 3) (element items 4)
     in andThen (validateBaseProofParams params) (\<lambda>_. Inr params)))"
proof -
  have d: "decodeProofValue lib proof = Inr bytes"
    using assms(1,2) by (simp add: decodeProofValue_string)
  have b: "isBaseProofValue lib proof = Inr True"
    using assms by (simp add: isBase_ok)
  show ?thesis
    by (simp add: parseBaseProofValueBody_def d b andThen_def length_CBOR_PREFIX_BASE)
qed

lemma body_derived_after_prefix:
  assumes "optionalProp proof ''proofValue'' = JStr (CHR ''u'' # encoded)"
    and "base64url_decode lib (JStr encoded) = Inr bytes"
    and "take 3 bytes = CBOR_PREFIX_DERIVED"
  shows "parseDisclosureProofValueBody lib proof =
     andThen (cborg_decode lib (drop 3 bytes)) (\<lambda>decoded.
     andThen (js_iterate decoded) (\<lambda>items.
     andThen (decompressLabelMap lib (element items 3)) (\<lambda>labelMap.
     let params = DerivedProofParams (element items 0) (element items 1) (element items 2)
                    labelMap (element items 4)
     in andThen (validateDerivedProofParams params) (\<lambda>_. Inr params))))"
proof -
  have d: "decodeProofValue lib proof = Inr bytes"
    using assms(1,2) by (simp add: decodeProofValue_string)
  have b: "isDerivedProofValue lib proof = Inr True"
    using assms by (simp add: isDerived_ok)
  show ?thesis
    by (simp add: parseDisclosureProofValueBody_def d b andThen_def length_CBOR_PREFIX_DERIVED)
qed


lemma cause_base_cbor:
  assumes "optionalProp proof ''proofValue'' = JStr (CHR ''u'' # encoded)"
    and "base64url_decode lib (JStr encoded) = Inr bytes"
    and "take 3 bytes = CBOR_PREFIX_BASE"
    and "cborg_decode lib (drop 3 bytes) = Inl err"
  shows "parseBaseProofValue lib proof = Inl (TypeError msgInvalidProofValue (Some err))"
  using assms(4)
  by (simp add: parseBaseProofValue_def body_base_after_prefix [OF assms(1-3)]
      catchInvalidProofValue_def andThen_def)

lemma cause_derived_cbor:
  assumes "optionalProp proof ''proofValue'' = JStr (CHR ''u'' # encoded)"
    and "base64url_decode lib (JStr encoded) = Inr bytes"
    and "take 3 bytes = CBOR_PREFIX_DERIVED"
    and "cborg_decode lib (drop 3 bytes) = Inl err"
  shows "parseDisclosureProofValue lib proof = Inl (TypeError msgInvalidProofValue (Some err))"
  using assms(4)
  by (simp add: parseDisclosureProofValue_def body_derived_after_prefix [OF assms(1-3)]
      catchInvalidProofValue_def andThen_def)

lemma cause_base_validation:
  assumes "optionalProp proof ''proofValue'' = JStr (CHR ''u'' # encoded)"
    and "base64url_decode lib (JStr encoded) = Inr bytes"
    and "take 3 bytes = CBOR_PREFIX_BASE"
    and "cborg_decode lib (drop 3 bytes) = Inr decoded"
    and "js_iterate decoded = Inr items"
    and "validateBaseProofParams
           (BaseProofParams (element items 0) (element items 1) (element items 2)
              (element items 3) (element items 4)) = Inl err"
  shows "parseBaseProofValue lib proof = Inl (TypeError msgInvalidProofValue (Some err))"
  using assms(4-6)
  by (simp add: parseBaseProofValue_def body_base_after_prefix [OF assms(1-3)]
      catchInvalidProofValue_def andThen_def del: validateBaseProofParams.simps)

lemma cause_derived_validation:
  assumes "optionalProp proof ''proofValue'' = JStr (CHR ''u'' # encoded)"
    and "base64url_decode lib (JStr encoded) = Inr bytes"
    and "take 3 bytes = CBOR_PREFIX_DERIVED"
    and "cborg_decode lib (drop 3 bytes) = Inr decoded"
    and "js_iterate decoded = Inr items"
    and "decompressLabelMap lib (element items 3) = Inr labelMap"
    and "validateDerivedProofParams
           (DerivedProofParams (element items 0) (element items 1) (element items 2)
              labelMap (element items 4)) = Inl err"
  shows "parseDisclosureProofValue lib proof = Inl (TypeError msgInvalidProofValue (Some err))"
  using assms(4-7)
  by (simp add: parseDisclosureProofValue_def body_derived_after_prefix [OF assms(1-3)]
      catchInvalidProofValue_def andThen_def del: validateDerivedProofParams.simps)

lemma cause_base_prefix:
  assumes "optionalProp proof ''proofValue'' = JStr (CHR ''u'' # encoded)"
    and "base64url_decode lib (JStr encoded) = Inr bytes"
    and "take 3 bytes \<noteq> CBOR_PREFIX_BASE"
  shows "parseBaseProofValue lib proof
     = Inl (TypeError msgInvalidProofValue (Some (TypeError msgMustBeBase None)))"
  using isBase_wrong_prefix [OF assms] assms(1,2)
  by (simp add: parseBaseProofValue_def parseBaseProofValueBody_def
      catchInvalidProofValue_def andThen_def decodeProofValue_string)

lemma cause_derived_prefix:
  assumes "optionalProp proof ''proofValue'' = JStr (CHR ''u'' # encoded)"
    and "base64url_decode lib (JStr encoded) = Inr bytes"
    and "take 3 bytes \<noteq> CBOR_PREFIX_DERIVED"
  shows "parseDisclosureProofValue lib proof
     = Inl (TypeError msgInvalidProofValue (Some (TypeError msgMustBeDerived None)))"
  using isDerived_wrong_prefix [OF assms] assms(1,2)
  by (simp add: parseDisclosureProofValue_def parseDisclosureProofValueBody_def
      catchInvalidProofValue_def andThen_def decodeProofValue_string)

text \<open>
  C10. Each parser either returns parameters, and then \<open>proofValue\<close> is a string tagged
  \<open>u\<close>, its rest decodes to bytes that begin with the parser's prefix, the body decodes
  to an iterable value and the parameters pass validation; or it throws the \<open>TypeError\<close>
  with the message \<open>The proof does not include a valid "proofValue" property.\<close> whose
  cause is the error that the \<open>try\<close> block threw. That original error is: the error of
  \<^verbatim>\<open>base64url.decode(proof.proofValue.slice(1))\<close> when that expression throws (a missing
  \<open>proofValue\<close> among the cases); the \<open>must be a string\<close> error for a \<open>proofValue\<close> that is
  not a string; the \<open>only base64url\<close> error for a string without the tag \<open>u\<close>; the
  \<open>must be a base\<close> (\<open>derived\<close>) \<open>proof\<close> error for a wrong prefix; the error of
  \<open>cborg.decode\<close> for an undecodable body; and the validation error for parameters
  that fail validation. Every one of them reaches the caller under the same class and
  message.
\<close>

theorem parse_failure_uniform:
  "(case parseBaseProofValue lib proof of
      Inl e \<Rightarrow> \<exists>cause. parseBaseProofValueBody lib proof = Inl cause
                 \<and> e = TypeError msgInvalidProofValue (Some cause)
    | Inr params \<Rightarrow>
        \<exists>encoded bytes decoded items.
          optionalProp proof ''proofValue'' = JStr (CHR ''u'' # encoded)
          \<and> base64url_decode lib (JStr encoded) = Inr bytes
          \<and> take 3 bytes = CBOR_PREFIX_BASE
          \<and> cborg_decode lib (drop 3 bytes) = Inr decoded
          \<and> js_iterate decoded = Inr items
          \<and> validateBaseProofParams params = Inr ())
   \<and> (case parseDisclosureProofValue lib proof of
      Inl e \<Rightarrow> \<exists>cause. parseDisclosureProofValueBody lib proof = Inl cause
                 \<and> e = TypeError msgInvalidProofValue (Some cause)
    | Inr params \<Rightarrow>
        \<exists>encoded bytes decoded items labelMap.
          optionalProp proof ''proofValue'' = JStr (CHR ''u'' # encoded)
          \<and> base64url_decode lib (JStr encoded) = Inr bytes
          \<and> take 3 bytes = CBOR_PREFIX_DERIVED
          \<and> cborg_decode lib (drop 3 bytes) = Inr decoded
          \<and> js_iterate decoded = Inr items
          \<and> decompressLabelMap lib (element items 3) = Inr labelMap
          \<and> validateDerivedProofParams params = Inr ())
   \<and> (decodeProofValue lib proof = Inl err \<longrightarrow>
        parseBaseProofValue lib proof = Inl (TypeError msgInvalidProofValue (Some err))
        \<and> parseDisclosureProofValue lib proof
            = Inl (TypeError msgInvalidProofValue (Some err)))
   \<and> (decodeProofValue lib proof = Inr bytes
        \<and> \<not> isString (optionalProp proof ''proofValue'') \<longrightarrow>
        parseBaseProofValue lib proof
          = Inl (TypeError msgInvalidProofValue (Some (TypeError msgMustBeString None)))
        \<and> parseDisclosureProofValue lib proof
          = Inl (TypeError msgInvalidProofValue (Some (TypeError msgMustBeString None))))
   \<and> (decodeProofValue lib proof = Inr bytes
        \<and> optionalProp proof ''proofValue'' = JStr s \<and> take 1 s \<noteq> ''u'' \<longrightarrow>
        parseBaseProofValue lib proof
          = Inl (TypeError msgInvalidProofValue (Some (TypeError msgOnlyBase64url None)))
        \<and> parseDisclosureProofValue lib proof
          = Inl (TypeError msgInvalidProofValue (Some (TypeError msgOnlyBase64url None))))
   \<and> (optionalProp proof ''proofValue'' = JStr (CHR ''u'' # encoded)
        \<and> base64url_decode lib (JStr encoded) = Inr bytes \<longrightarrow>
        (take 3 bytes \<noteq> CBOR_PREFIX_BASE \<longrightarrow>
           parseBaseProofValue lib proof
             = Inl (TypeError msgInvalidProofValue (Some (TypeError msgMustBeBase None))))
        \<and> (take 3 bytes \<noteq> CBOR_PREFIX_DERIVED \<longrightarrow>
           parseDisclosureProofValue lib proof
             = Inl (TypeError msgInvalidProofValue (Some (TypeError msgMustBeDerived None))))
        \<and> (take 3 bytes = CBOR_PREFIX_BASE \<and> cborg_decode lib (drop 3 bytes) = Inl err \<longrightarrow>
           parseBaseProofValue lib proof = Inl (TypeError msgInvalidProofValue (Some err)))
        \<and> (take 3 bytes = CBOR_PREFIX_DERIVED \<and> cborg_decode lib (drop 3 bytes) = Inl err \<longrightarrow>
           parseDisclosureProofValue lib proof
             = Inl (TypeError msgInvalidProofValue (Some err)))
        \<and> (take 3 bytes = CBOR_PREFIX_BASE \<and> cborg_decode lib (drop 3 bytes) = Inr decoded
            \<and> js_iterate decoded = Inr items
            \<and> validateBaseProofParams
                (BaseProofParams (element items 0) (element items 1) (element items 2)
                   (element items 3) (element items 4)) = Inl err \<longrightarrow>
           parseBaseProofValue lib proof = Inl (TypeError msgInvalidProofValue (Some err)))
        \<and> (take 3 bytes = CBOR_PREFIX_DERIVED \<and> cborg_decode lib (drop 3 bytes) = Inr decoded
            \<and> js_iterate decoded = Inr items
            \<and> decompressLabelMap lib (element items 3) = Inr labelMap
            \<and> validateDerivedProofParams
                (DerivedProofParams (element items 0) (element items 1) (element items 2)
                   labelMap (element items 4)) = Inl err \<longrightarrow>
           parseDisclosureProofValue lib proof
             = Inl (TypeError msgInvalidProofValue (Some err))))"
proof -
  show ?thesis
    apply (intro conjI impI)
    subgoal by (rule parseBase_cases)
    subgoal by (rule parseDisclosure_cases)
    subgoal using cause_decode by blast
    subgoal using cause_decode by blast
    subgoal using cause_assert [OF _ assert_not_string] by blast
    subgoal using cause_assert [OF _ assert_not_string] by blast
    subgoal using cause_assert [OF _ assert_no_tag] by blast
    subgoal using cause_assert [OF _ assert_no_tag] by blast
    subgoal using cause_base_prefix by blast
    subgoal using cause_derived_prefix by blast
    subgoal using cause_base_cbor by blast
    subgoal using cause_derived_cbor by blast
    subgoal using cause_base_validation by blast
    subgoal using cause_derived_validation by blast
    done
qed


theorem parse_failure_uniform_witness:
  "parseBaseProofValue demoLibraries (JObj [])
     = Inl (TypeError msgInvalidProofValue (Some (TypeError msgNullish None)))
   \<and> parseDisclosureProofValue (demoLibraries\<lparr>base64url_decode := \<lambda>v. Inr []\<rparr>)
       (JObj [(''proofValue'', JArr [])])
     = Inl (TypeError msgInvalidProofValue (Some (TypeError msgMustBeString None)))
   \<and> parseBaseProofValue demoLibraries (JObj [(''proofValue'', JStr ''z2V0AgA'')])
     = Inl (TypeError msgInvalidProofValue (Some (TypeError msgOnlyBase64url None)))
   \<and> parseBaseProofValue demoLibraries (JObj [(''proofValue'', JStr ''u2V0BgA'')])
     = Inl (TypeError msgInvalidProofValue (Some (TypeError msgMustBeBase None)))
   \<and> parseDisclosureProofValue demoLibraries (JObj [(''proofValue'', JStr ''u2V0AgA'')])
     = Inl (TypeError msgInvalidProofValue (Some (TypeError msgMustBeDerived None)))
   \<and> parseBaseProofValue
       (demoLibraries\<lparr>cborg_decode := \<lambda>b. Inl (Error ''CBOR decode error'')\<rparr>)
       (JObj [(''proofValue'', JStr ''u2V0AgA'')])
     = Inl (TypeError msgInvalidProofValue (Some (Error ''CBOR decode error'')))
   \<and> parseDisclosureProofValue
       (demoLibraries\<lparr>cborg_decode := \<lambda>b. Inl (Error ''CBOR decode error'')\<rparr>)
       (JObj [(''proofValue'', JStr ''u2V0BgA'')])
     = Inl (TypeError msgInvalidProofValue (Some (Error ''CBOR decode error'')))
   \<and> parseBaseProofValue demoLibraries (JObj [(''proofValue'', JStr ''u2V0AgA'')])
     = Inl (TypeError msgInvalidProofValue (Some (TypeError msgBaseSignature None)))
   \<and> parseDisclosureProofValue
       (demoLibraries\<lparr>cborg_decode := \<lambda>b. Inr (JArr [JNull, JNull, JNull, JMap []])\<rparr>)
       (JObj [(''proofValue'', JStr ''u2V0BgA'')])
     = Inl (TypeError msgInvalidProofValue (Some (TypeError msgBaseSignature None)))"
proof -
  let ?lenient = "demoLibraries\<lparr>base64url_decode := \<lambda>v. Inr []\<rparr>"
  let ?broken = "demoLibraries\<lparr>cborg_decode := \<lambda>b. Inl (Error ''CBOR decode error'')\<rparr>"
  let ?other = "demoLibraries\<lparr>cborg_decode := \<lambda>b. Inr (JArr [JNull, JNull, JNull, JMap []])\<rparr>"
  let ?pA = "JObj [(''proofValue'', JStr ''u2V0AgA'')]"
  let ?pB = "JObj [(''proofValue'', JStr ''u2V0BgA'')]"
  have pvA: "optionalProp ?pA ''proofValue'' = JStr (CHR ''u'' # ''2V0AgA'')"
    and pvB: "optionalProp ?pB ''proofValue'' = JStr (CHR ''u'' # ''2V0BgA'')"
    by (simp_all add: optionalProp_def)
  have dA: "base64url_decode l (JStr ''2V0AgA'') = Inr [0xd9, 0x5d, 0x00, 0x80]"
    and dB: "base64url_decode l (JStr ''2V0BgA'') = Inr [0xd9, 0x5d, 0x01, 0x80]"
    if "l = demoLibraries \<or> l = ?broken \<or> l = ?other" for l
    using that by (auto simp: demoLibraries_def)
  have tA: "take 3 [0xd9, 0x5d, 0x00, 0x80] = CBOR_PREFIX_BASE"
    "take 3 [0xd9, 0x5d, 0x00, 0x80] \<noteq> CBOR_PREFIX_DERIVED"
    and tB: "take 3 [0xd9, 0x5d, 0x01, 0x80] = CBOR_PREFIX_DERIVED"
    "take 3 [0xd9, 0x5d, 0x01, 0x80] \<noteq> CBOR_PREFIX_BASE"
    by (simp_all add: CBOR_PREFIX_BASE_def CBOR_PREFIX_DERIVED_def)
  have w1: "parseBaseProofValue demoLibraries (JObj [])
     = Inl (TypeError msgInvalidProofValue (Some (TypeError msgNullish None)))"
  proof -
    have "decodeProofValue demoLibraries (JObj []) = Inl (TypeError msgNullish None)"
      by (simp add: decodeProofValue_def getProp_def js_slice_def andThen_def)
    then show ?thesis
      using parse_failure_uniform [where lib = demoLibraries and err = "TypeError msgNullish None"]
      by blast
  qed
  have w2: "parseDisclosureProofValue ?lenient (JObj [(''proofValue'', JArr [])])
     = Inl (TypeError msgInvalidProofValue (Some (TypeError msgMustBeString None)))"
  proof -
    have "decodeProofValue ?lenient (JObj [(''proofValue'', JArr [])]) = Inr []"
      by (simp add: decodeProofValue_def getProp_def js_slice_def andThen_def)
    moreover have "\<not> isString (optionalProp (JObj [(''proofValue'', JArr [])]) ''proofValue'')"
      by (simp add: optionalProp_def isString_def)
    ultimately show ?thesis
      using parse_failure_uniform [where lib = ?lenient and bytes = "[]"]
      by blast
  qed
  have w3: "parseBaseProofValue demoLibraries (JObj [(''proofValue'', JStr ''z2V0AgA'')])
     = Inl (TypeError msgInvalidProofValue (Some (TypeError msgOnlyBase64url None)))"
  proof -
    have "decodeProofValue demoLibraries (JObj [(''proofValue'', JStr ''z2V0AgA'')])
        = Inr [0xd9, 0x5d, 0x00, 0x80]"
      by (simp add: decodeProofValue_def getProp_def js_slice_def andThen_def
          demoLibraries_def)
    moreover have "optionalProp (JObj [(''proofValue'', JStr ''z2V0AgA'')]) ''proofValue''
        = JStr ''z2V0AgA''"
      by (simp add: optionalProp_def)
    moreover have "take 1 ''z2V0AgA'' \<noteq> ''u''" by simp
    ultimately show ?thesis
      using parse_failure_uniform [where lib = demoLibraries
          and bytes = "[0xd9, 0x5d, 0x00, 0x80]" and s = "''z2V0AgA''"]
      by blast
  qed
  have w4: "parseBaseProofValue demoLibraries ?pB
     = Inl (TypeError msgInvalidProofValue (Some (TypeError msgMustBeBase None)))"
    using parse_failure_uniform [where lib = demoLibraries and encoded = "''2V0BgA''"
        and bytes = "[0xd9, 0x5d, 0x01, 0x80]"]
      pvB dB [of demoLibraries] tB
    by blast
  have w5: "parseDisclosureProofValue demoLibraries ?pA
     = Inl (TypeError msgInvalidProofValue (Some (TypeError msgMustBeDerived None)))"
    using parse_failure_uniform [where lib = demoLibraries and encoded = "''2V0AgA''"
        and bytes = "[0xd9, 0x5d, 0x00, 0x80]"]
      pvA dA [of demoLibraries] tA
    by blast
  have cb: "cborg_decode ?broken b = Inl (Error ''CBOR decode error'')" for b
    by simp
  have w6: "parseBaseProofValue ?broken ?pA
     = Inl (TypeError msgInvalidProofValue (Some (Error ''CBOR decode error'')))"
    using parse_failure_uniform [where lib = ?broken and encoded = "''2V0AgA''"
        and bytes = "[0xd9, 0x5d, 0x00, 0x80]" and err = "Error ''CBOR decode error''"]
      pvA dA [of ?broken] tA cb
    by blast
  have w7: "parseDisclosureProofValue ?broken ?pB
     = Inl (TypeError msgInvalidProofValue (Some (Error ''CBOR decode error'')))"
    using parse_failure_uniform [where lib = ?broken and encoded = "''2V0BgA''"
        and bytes = "[0xd9, 0x5d, 0x01, 0x80]" and err = "Error ''CBOR decode error''"]
      pvB dB [of ?broken] tB cb
    by blast
  have w8: "parseBaseProofValue demoLibraries ?pA
     = Inl (TypeError msgInvalidProofValue (Some (TypeError msgBaseSignature None)))"
  proof -
    have c: "cborg_decode demoLibraries (drop 3 [0xd9, 0x5d, 0x00, 0x80]) = Inr (JArr [])"
      by (simp add: demoLibraries_def)
    have i: "js_iterate (JArr []) = Inr []" by (simp add: js_iterate_def)
    have v: "validateBaseProofParams
        (BaseProofParams (element [] 0) (element [] 1) (element [] 2) (element [] 3)
           (element [] 4)) = Inl (TypeError msgBaseSignature None)"
      by (simp add: element_def isUint8ArrayOfLength_def)
    show ?thesis
      using parse_failure_uniform [where lib = demoLibraries and encoded = "''2V0AgA''"
          and bytes = "[0xd9, 0x5d, 0x00, 0x80]" and decoded = "JArr []" and items = "[]"
          and err = "TypeError msgBaseSignature None"]
        pvA dA [of demoLibraries] tA c i v
      by blast
  qed
  have w9: "parseDisclosureProofValue ?other ?pB
     = Inl (TypeError msgInvalidProofValue (Some (TypeError msgBaseSignature None)))"
  proof -
    let ?items = "[JNull, JNull, JNull, JMap []]"
    have c: "cborg_decode ?other (drop 3 [0xd9, 0x5d, 0x01, 0x80]) = Inr (JArr ?items)"
      by simp
    have i: "js_iterate (JArr ?items) = Inr ?items" by (simp add: js_iterate_def)
    have l: "decompressLabelMap ?other (element ?items 3) = Inr (JMap [])"
      by (simp add: element_def decompressLabelMap_def js_entries_def andThen_def)
    have v: "validateDerivedProofParams
        (DerivedProofParams (element ?items 0) (element ?items 1) (element ?items 2)
           (JMap []) (element ?items 4)) = Inl (TypeError msgBaseSignature None)"
      by (simp add: element_def isUint8ArrayOfLength_def)
    show ?thesis
      using parse_failure_uniform [where lib = ?other and encoded = "''2V0BgA''"
          and bytes = "[0xd9, 0x5d, 0x01, 0x80]" and decoded = "JArr ?items"
          and items = ?items and labelMap = "JMap []"
          and err = "TypeError msgBaseSignature None"]
        pvB dB [of ?other] tB c i l v
      by blast
  qed
  from w1 w2 w3 w4 w5 w6 w7 w8 w9 show ?thesis by (intro conjI)
qed


section \<open>Properties of the Discloser\<close>

lemma disclosureFromGroups_error:
  assumes "disclosureFromGroups prim document combinedPointers baseSignature publicKey
             signatures grouped = Inl e"
  shows "selectJsonLd prim document combinedPointers = Inl e
       \<or> (\<exists>nquads. canonicalize prim nquads = Inl e)"
  using assms
  by (cases grouped) (auto simp: andThen_def Let_def split: sum.splits)

text \<open>
  C7. When the base proof has parsed and both its mandatory pointers and the selective
  pointers of the options are empty, \<open>_createDisclosureData\<close> throws the \<open>Error\<close>
  \<open>Nothing selected for disclosure.\<close>, whatever the collaborators are: none of them has
  been called. When a mandatory or a selective pointer is present, the function goes on
  to \<open>createHmac\<close> and \<open>canonicalizeAndGroup\<close>, and an error it throws is one that a
  collaborator threw.
\<close>

theorem nothing_selected:
  assumes "parseBaseProofValue lib proof
             = Inr (BaseProofParams baseSignature publicKey hmacKey signatures (JArr pointers))"
  shows "(pointers = [] \<and> selectivePointers = [] \<longrightarrow>
            (\<forall>collaborators :: 'h primitives.
               createDisclosureData name lib collaborators
                 (Some (Cryptosuite name (Some (Options proofId selectivePointers))))
                 document proof
               = Inl (Error msgNothingSelected)))
       \<and> (pointers \<noteq> [] \<or> selectivePointers \<noteq> [] \<longrightarrow>
            createDisclosureData name lib prim
              (Some (Cryptosuite name (Some (Options proofId selectivePointers))))
              document proof
            = andThen (createHmac prim hmacKey) (\<lambda>hmac.
                andThen (canonicalizeAndGroup prim document hmac pointers selectivePointers
                           (pointers @ selectivePointers))
                  (disclosureFromGroups prim document (pointers @ selectivePointers)
                     baseSignature publicKey signatures)))
       \<and> (pointers \<noteq> [] \<or> selectivePointers \<noteq> [] \<longrightarrow>
            (\<forall>e. createDisclosureData name lib prim
                   (Some (Cryptosuite name (Some (Options proofId selectivePointers))))
                   document proof = Inl e \<longrightarrow>
                 createHmac prim hmacKey = Inl e
                 \<or> (\<exists>hmac. canonicalizeAndGroup prim document hmac pointers selectivePointers
                              (pointers @ selectivePointers) = Inl e)
                 \<or> selectJsonLd prim document (pointers @ selectivePointers) = Inl e
                 \<or> (\<exists>nquads. canonicalize prim nquads = Inl e)))"
proof (intro conjI impI allI)
  fix collaborators :: "'h primitives"
  assume "pointers = [] \<and> selectivePointers = []"
  then show "createDisclosureData name lib collaborators
                 (Some (Cryptosuite name (Some (Options proofId selectivePointers))))
                 document proof
               = Inl (Error msgNothingSelected)"
    using assms by (simp add: createDisclosureData_def andThen_def lengthPositive_def)
next
  assume p: "pointers \<noteq> [] \<or> selectivePointers \<noteq> []"
  then show eq: "createDisclosureData name lib prim
              (Some (Cryptosuite name (Some (Options proofId selectivePointers))))
              document proof
            = andThen (createHmac prim hmacKey) (\<lambda>hmac.
                andThen (canonicalizeAndGroup prim document hmac pointers selectivePointers
                           (pointers @ selectivePointers))
                  (disclosureFromGroups prim document (pointers @ selectivePointers)
                     baseSignature publicKey signatures))"
    using assms
    by (auto simp: createDisclosureData_def andThen_def lengthPositive_def arrayElements_def
        Let_def)
next
  fix e
  assume p: "pointers \<noteq> [] \<or> selectivePointers \<noteq> []"
    and e: "createDisclosureData name lib prim
                   (Some (Cryptosuite name (Some (Options proofId selectivePointers))))
                   document proof = Inl e"
  have "createDisclosureData name lib prim
              (Some (Cryptosuite name (Some (Options proofId selectivePointers))))
              document proof
            = andThen (createHmac prim hmacKey) (\<lambda>hmac.
                andThen (canonicalizeAndGroup prim document hmac pointers selectivePointers
                           (pointers @ selectivePointers))
                  (disclosureFromGroups prim document (pointers @ selectivePointers)
                     baseSignature publicKey signatures))"
    using assms p
    by (auto simp: createDisclosureData_def andThen_def lengthPositive_def arrayElements_def
        Let_def)
  with e show "createHmac prim hmacKey = Inl e
                 \<or> (\<exists>hmac. canonicalizeAndGroup prim document hmac pointers selectivePointers
                              (pointers @ selectivePointers) = Inl e)
                 \<or> selectJsonLd prim document (pointers @ selectivePointers) = Inl e
                 \<or> (\<exists>nquads. canonicalize prim nquads = Inl e)"
    using disclosureFromGroups_error
      [of prim document "pointers @ selectivePointers" baseSignature publicKey signatures _ e]
    by (auto simp: andThen_def split: sum.splits)
qed


lemma demo_parseBase:
  "parseBaseProofValue demoLibraries (JObj demoProof) = Inr demoBaseParams"
proof -
  have v1: "validateBaseProofParams
      (BaseProofParams (JBytes (replicate 64 0)) (JBytes (replicate 35 0))
         (JBytes (replicate 32 0)) (JArr []) (JArr [])) = Inr ()"
    by (simp add: isUint8ArrayOfLength_def isArrayOf_def)
  have c1: "cborg_encode demoLibraries (JArr [JBytes (replicate 64 0), JBytes (replicate 35 0),
         JBytes (replicate 32 0), JArr [], JArr []]) = Inr demoBaseCbor"
    by (simp add: demoLibraries_def demoBasePayload_def)
  have c2: "cborg_decode demoLibraries demoBaseCbor
      = Inr (JArr [JBytes (replicate 64 0), JBytes (replicate 35 0),
         JBytes (replicate 32 0), JArr [], JArr []])"
    by (simp add: demoLibraries_def demoBasePayload_def demoBaseCbor_def)
  have b1: "base64url_encode demoLibraries (JBytes (CBOR_PREFIX_BASE @ demoBaseCbor))
      = Inr demoBaseText"
    by (simp add: demoLibraries_def CBOR_PREFIX_BASE_def)
  have b2: "base64url_decode demoLibraries (JStr demoBaseText)
      = Inr (CBOR_PREFIX_BASE @ demoBaseCbor)"
    by (simp add: demoLibraries_def demoBaseText_def)
  have p1: "optionalProp (JObj demoProof) ''proofValue'' = JStr (CHR ''u'' # demoBaseText)"
    by (simp add: optionalProp_def demoProof_def)
  show ?thesis
    using base_roundtrip [OF v1 c1 c2 b1 b2 p1] by (simp add: demoBaseParams_def)
qed

theorem nothing_selected_witness:
  "createDisclosureData ''sm2-sd-2023'' demoLibraries demoPrimitives
     (Some (Cryptosuite ''sm2-sd-2023'' (Some (Options None [])))) [] (JObj demoProof)
   = Inl (Error ''Nothing selected for disclosure.'')
   \<and> createDisclosureData ''sm2-sd-2023'' demoLibraries demoPrimitives
     (Some (Cryptosuite ''sm2-sd-2023'' (Some (Options None [JStr ''/id''])))) []
     (JObj demoProof)
   = Inr (DisclosureData (JBytes (replicate 64 0)) (JBytes (replicate 35 0)) (JArr [])
       (JMap []) (JArr []) (Some [(''@context'', JStr ''https://www.w3.org/ns/credentials/v2'')]))"
proof -
  have p: "parseBaseProofValue demoLibraries (JObj demoProof)
      = Inr (BaseProofParams (JBytes (replicate 64 0)) (JBytes (replicate 35 0))
               (JBytes (replicate 32 0)) (JArr []) (JArr []))"
    using demo_parseBase by (simp add: demoBaseParams_def)
  have "\<forall>collaborators :: unit primitives.
      createDisclosureData ''sm2-sd-2023'' demoLibraries collaborators
        (Some (Cryptosuite ''sm2-sd-2023'' (Some (Options None [])))) [] (JObj demoProof)
      = Inl (Error msgNothingSelected)"
    using nothing_selected [OF p, of "[]" "''sm2-sd-2023''" None "[]" demoPrimitives]
    by simp
  then have first: "createDisclosureData ''sm2-sd-2023'' demoLibraries demoPrimitives
        (Some (Cryptosuite ''sm2-sd-2023'' (Some (Options None [])))) [] (JObj demoProof)
      = Inl (Error ''Nothing selected for disclosure.'')"
    unfolding msgNothingSelected_def by (rule spec)
  have second: "createDisclosureData ''sm2-sd-2023'' demoLibraries demoPrimitives
     (Some (Cryptosuite ''sm2-sd-2023'' (Some (Options None [JStr ''/id''])))) []
     (JObj demoProof)
   = Inr (DisclosureData (JBytes (replicate 64 0)) (JBytes (replicate 35 0)) (JArr [])
       (JMap []) (JArr []) (Some [(''@context'', JStr ''https://www.w3.org/ns/credentials/v2'')]))"
    using nothing_selected [OF p, of "[JStr ''/id'']" "''sm2-sd-2023''" None "[]" demoPrimitives]
    by (simp add: demoPrimitives_def andThen_def
        mandatoryIndexes_def filteredSignatures_def keys_def arrayElements_def)
  from first second show ?thesis by (rule conjI)
qed

lemma matchLoop_in:
  "matchLoop prim st ps found = Inr (Some p) \<Longrightarrow> p \<in> set ps \<or> found = Some p"
  by (induction ps arbitrary: found)
     (auto simp: andThen_def split: sum.splits if_splits option.splits)

lemma findProof_in:
  assumes "findProof prim st proofId proofSet = Inr p"
  shows "p \<in> set proofSet"
proof -
  have "\<exists>r. (matchLoop prim st proofSet None = Inr (Some p))
      \<or> (\<exists>i. find (\<lambda>q. optionalProp (JObj (objectAt st q)) ''id'' = JStr i) proofSet = Some p)"
    using assms
    by (auto simp: findProof_def andThen_def split: sum.splits option.splits if_splits)
  then show ?thesis
    using matchLoop_in [of prim st proofSet None p]
    by (auto simp: find_Some_iff)
qed

lemma map_of_setProp: "map_of (setProp obj k v) k' = (if k' = k then Some v else map_of obj k')"
  by (induction obj) auto

lemma map_of_deleteProp:
  "map_of (deleteProp obj k) k' = (if k' = k then None else map_of obj k')"
  by (induction obj) (auto simp: deleteProp_def)

lemma attachDerivedProof_store:
  assumes "attachDerivedProof lib st baseProof
             (DisclosureData baseSignature publicKey signatures labelMap indexes revealDoc)
           = (st', Inr r)"
    and "baseProof < length st"
  shows "\<exists>obj proofValue.
           revealDoc = Some obj
         \<and> serializeDisclosureProofValue lib
             (DerivedProofParams baseSignature publicKey signatures labelMap indexes)
             = Inr proofValue
         \<and> r = length st
         \<and> st' = st @ [setProp obj ''proof'' (JRef (Suc (length st))),
                         deleteProp (setProp (st ! baseProof) ''proofValue'' (JStr proofValue))
                           ''@context'']"
  using assms
  by (cases revealDoc)
     (auto simp: Let_def objectAt_def nth_append list_update_append
        simp del: serializeDisclosureProofValue.simps split: sum.splits)


text \<open>
  C9. After a \<open>_derive\<close> that returns, the store is the store before followed by two new
  objects: the revealed document, whose \<open>proof\<close> refers to the second, and the copy of
  the base proof with \<open>proofValue\<close> set to the serialized derived parameters and
  \<open>@context\<close> deleted. Every object that existed before, the base proof and the
  document among them, is unchanged, and the returned address is that of the revealed
  document. The proof set holds addresses of the store.
\<close>

theorem derive_frame:
  assumes "derive name lib prim st cryptosuite document purposeTerm proofSet
             = (st', Inr revealDoc)"
    and "\<forall>p \<in> set proofSet. p < length st"
  shows "\<exists>baseProof obj proofValue baseSignature publicKey signatures labelMap indexes.
           baseProof \<in> set proofSet
         \<and> createDisclosureData name lib prim cryptosuite (objectAt st document)
             (JObj (st ! baseProof))
             = Inr (DisclosureData baseSignature publicKey signatures labelMap indexes (Some obj))
         \<and> serializeDisclosureProofValue lib
             (DerivedProofParams baseSignature publicKey signatures labelMap indexes)
             = Inr proofValue
         \<and> revealDoc = length st
         \<and> st' = st @ [setProp obj ''proof'' (JRef (Suc (length st))),
                         deleteProp (setProp (st ! baseProof) ''proofValue'' (JStr proofValue))
                           ''@context'']
         \<and> (\<forall>a < length st. st' ! a = st ! a)
         \<and> map_of (st' ! revealDoc) ''proof'' = Some (JRef (Suc (length st)))
         \<and> map_of (st' ! Suc (length st)) ''proofValue'' = Some (JStr proofValue)
         \<and> map_of (st' ! Suc (length st)) ''@context'' = None
         \<and> (\<forall>k. k \<noteq> ''proofValue'' \<and> k \<noteq> ''@context'' \<longrightarrow>
               map_of (st' ! Suc (length st)) k = map_of (st ! baseProof) k)"
proof -
  obtain cryptosuiteName cryptosuiteOptions where
    cs: "cryptosuite = Some (Cryptosuite cryptosuiteName (Some cryptosuiteOptions))"
    using assms(1)
    by (auto simp: derive_def split: option.splits cryptosuite.splits)
  obtain baseProof where
    fp: "findProof prim st (optionsProofId cryptosuiteOptions) proofSet = Inr baseProof"
    using assms(1) cs by (auto simp: derive_def split: sum.splits)
  have mem: "baseProof \<in> set proofSet" using findProof_in [OF fp] .
  then have lt: "baseProof < length st" using assms(2) by blast
  obtain d where
    cd: "createDisclosureData name lib prim cryptosuite (objectAt st document)
           (JObj (st ! baseProof)) = Inr d"
    and at: "attachDerivedProof lib st baseProof d = (st', Inr revealDoc)"
    using assms(1) cs fp lt
    by (auto simp: derive_def objectAt_def split: sum.splits if_splits)
  obtain baseSignature publicKey signatures labelMap indexes r where
    d: "d = DisclosureData baseSignature publicKey signatures labelMap indexes r"
    by (cases d) auto
  obtain obj proofValue where
    r: "r = Some obj"
    and ser: "serializeDisclosureProofValue lib
               (DerivedProofParams baseSignature publicKey signatures labelMap indexes)
               = Inr proofValue"
    and rd: "revealDoc = length st"
    and st': "st' = st @ [setProp obj ''proof'' (JRef (Suc (length st))),
                     deleteProp (setProp (st ! baseProof) ''proofValue'' (JStr proofValue))
                       ''@context'']"
    using attachDerivedProof_store [OF at [unfolded d] lt] by blast
  have frame: "\<forall>a < length st. st' ! a = st ! a"
    by (simp add: st' nth_append)
  have n1: "st' ! revealDoc = setProp obj ''proof'' (JRef (Suc (length st)))"
    by (simp add: st' rd)
  have n2: "st' ! Suc (length st)
      = deleteProp (setProp (st ! baseProof) ''proofValue'' (JStr proofValue)) ''@context''"
    by (simp add: st' nth_append)
  show ?thesis
    using mem cd [unfolded d r] ser rd st' frame
    by (rule_tac x = baseProof in exI, rule_tac x = obj in exI,
        rule_tac x = proofValue in exI, rule_tac x = baseSignature in exI,
        rule_tac x = publicKey in exI, rule_tac x = signatures in exI,
        rule_tac x = labelMap in exI, rule_tac x = indexes in exI)
      (simp add: n1 [unfolded rd st'] n2 [unfolded st'] map_of_setProp map_of_deleteProp
        del: serializeDisclosureProofValue.simps)
qed


lemma demo_disclosure:
  "createDisclosureData ''sm2-sd-2023'' demoLibraries demoPrimitives
     (Some (Cryptosuite ''sm2-sd-2023'' (Some (Options None [JStr ''/id''])))) demoDocument
     (JObj demoProof)
   = Inr (DisclosureData (JBytes (replicate 64 0)) (JBytes (replicate 35 0)) (JArr [])
       (JMap []) (JArr []) (Some [(''@context'', JStr ''https://www.w3.org/ns/credentials/v2'')]))"
  by (simp add: createDisclosureData_def demo_parseBase demoBaseParams_def andThen_def
      lengthPositive_def demoPrimitives_def mandatoryIndexes_def filteredSignatures_def
      keys_def arrayElements_def)

lemma demo_serialize:
  "serializeDisclosureProofValue demoLibraries
     (DerivedProofParams (JBytes (replicate 64 0)) (JBytes (replicate 35 0)) (JArr [])
        (JMap []) (JArr []))
   = Inr (CHR ''u'' # demoRevealText)"
proof -
  have c: "cborg_encode demoLibraries demoRevealPayload = Inr demoRevealCbor"
    by (simp add: demoLibraries_def demoRevealPayload_def demoBasePayload_def
        demoDerivedPayload_def)
  have b: "base64url_encode demoLibraries (JBytes (CBOR_PREFIX_DERIVED @ demoRevealCbor))
      = Inr demoRevealText"
    by (simp add: demoLibraries_def CBOR_PREFIX_DERIVED_def CBOR_PREFIX_BASE_def
        demoDerivedCbor_def demoRevealCbor_def)
  show ?thesis
    using c b
    by (simp add: andThen_def isUint8ArrayOfLength_def isArrayOf_def compressLabelMap_def
        js_entries_def concatBuffers_def demoRevealPayload_def)
qed

lemma demo_derive:
  "derive ''sm2-sd-2023'' demoLibraries demoPrimitives [demoDocument, demoProof]
     (Some (Cryptosuite ''sm2-sd-2023'' (Some (Options None [JStr ''/id''])))) 0
     ''assertionMethod'' [1]
   = ([demoDocument, demoProof,
       [(''@context'', JStr ''https://www.w3.org/ns/credentials/v2''), (''proof'', JRef 3)],
       [(''type'', JStr ''DataIntegrityProof''), (''proofPurpose'', JStr ''assertionMethod''),
        (''proofValue'', JStr (CHR ''u'' # demoRevealText))]],
      Inr 2)"
proof -
  have f: "findProof demoPrimitives [demoDocument, demoProof] None [Suc 0] = Inr (Suc 0)"
    by (simp add: findProof_def andThen_def demoPrimitives_def)
  have o: "objectAt [demoDocument, demoProof] (Suc 0) = demoProof"
      "objectAt [demoDocument, demoProof] 0 = demoDocument"
    by (simp_all add: objectAt_def)
  have pp: "optionalProp (JObj demoProof) ''proofPurpose'' = JStr ''assertionMethod''"
    by (simp add: optionalProp_def demoProof_def)
  have a: "attachDerivedProof demoLibraries [demoDocument, demoProof] (Suc 0)
      (DisclosureData (JBytes (replicate 64 0)) (JBytes (replicate 35 0)) (JArr [])
         (JMap []) (JArr []) (Some [(''@context'', JStr ''https://www.w3.org/ns/credentials/v2'')]))
    = ([demoDocument, demoProof,
       [(''@context'', JStr ''https://www.w3.org/ns/credentials/v2''), (''proof'', JRef 3)],
       [(''type'', JStr ''DataIntegrityProof''), (''proofPurpose'', JStr ''assertionMethod''),
        (''proofValue'', JStr (CHR ''u'' # demoRevealText))]],
      Inr 2)"
    using demo_serialize
    by (simp add: Let_def objectAt_def deleteProp_def demoProof_def
        del: serializeDisclosureProofValue.simps)
  show ?thesis
    by (simp add: derive_def f o pp demo_disclosure a del: attachDerivedProof.simps)
qed

theorem derive_frame_witness:
  "\<exists>st'. derive ''sm2-sd-2023'' demoLibraries demoPrimitives [demoDocument, demoProof]
            (Some (Cryptosuite ''sm2-sd-2023'' (Some (Options None [JStr ''/id''])))) 0
            ''assertionMethod'' [1] = (st', Inr 2)
         \<and> st' ! 0 = demoDocument \<and> st' ! 1 = demoProof
         \<and> map_of (st' ! 2) ''proof'' = Some (JRef 3)
         \<and> map_of (st' ! 3) ''@context'' = None"
proof -
  have h: "\<forall>p \<in> set [1 :: nat]. p < length [demoDocument, demoProof]" by simp
  let ?st = "[demoDocument, demoProof]"
  let ?st' = "[demoDocument, demoProof,
       [(''@context'', JStr ''https://www.w3.org/ns/credentials/v2''), (''proof'', JRef 3)],
       [(''type'', JStr ''DataIntegrityProof''), (''proofPurpose'', JStr ''assertionMethod''),
        (''proofValue'', JStr (CHR ''u'' # demoRevealText))]]"
  from derive_frame [OF demo_derive h]
  have fr: "\<forall>a < length ?st. ?st' ! a = ?st ! a"
    and pr: "map_of (?st' ! 2) ''proof'' = Some (JRef (Suc (length ?st)))"
    and cx: "map_of (?st' ! Suc (length ?st)) ''@context'' = None"
    by blast+
  have "?st' ! 0 = demoDocument" "?st' ! 1 = demoProof"
    using fr by simp_all
  moreover have "map_of (?st' ! 2) ''proof'' = Some (JRef 3)"
    using pr by simp
  moreover have "map_of (?st' ! 3) ''@context'' = None"
    using cx by (simp add: numeral_3_eq_3)
  ultimately show ?thesis
    using demo_derive by blast
qed

end
